theory Spec2Isabelle
  imports Complex_Main
begin

section \<open>The synthetic banking dataset generator (\<open>gerar_dados\<close> of app.py)\<close>

text \<open>
  The generator draws eleven columns from numpy's global pseudo-random generator,
  stores them in a pandas DataFrame, applies five correlation passes, and derives three
  financial columns. The embedding is column oriented, as the source is: a DataFrame is
  a record of columns, a boolean mask is a \<open>bool list\<close>, and an assignment through
  \<open>df.loc[mask, col]\<close> rewrites the masked positions of one column.

  Numeric conventions. Python integers are \<open>int\<close>. A float64 value is the real number
  it denotes; NaN and infinities are outside the model. \<open>Series.round(d)\<close> (numpy's
  \<open>around\<close>) multiplies by \<open>10^d\<close>, rounds to the nearest integer with ties to even
  and divides by \<open>10^d\<close>. The balance column is computed in float64 arithmetic, with
  the rounding of every product and quotient to the nearest float64 (\<open>float64\<close>
  below), since its last bit depends on the order of the operations of line 134. The
  other float columns are computed with exact real arithmetic.

  numpy's generator is a library outside the repository. It is a parameter of the
  model: an abstract state \<open>'g\<close>, a seeding function, and one single-draw function per
  distribution that returns the drawn value with the advanced state.
\<close>

subsection \<open>Numeric helpers of numpy\<close>

definition rint :: "real \<Rightarrow> int" where
  "rint x =
     (let f = \<lfloor>x\<rfloor>; d = x - of_int f
      in if d < 1 / 2 then f else if 1 / 2 < d then f + 1
         else if even f then f else f + 1)"

definition np_round :: "nat \<Rightarrow> real \<Rightarrow> real" where
  "np_round d x = of_int (rint (x * 10 ^ d)) / 10 ^ d"

text \<open>
  IEEE 754 binary64 with rounding to nearest, ties to even: a significand of 53 bits.
  For \<open>x > 0\<close>, \<open>expoente x\<close> is the \<open>e\<close> with \<open>2^e \<le> x < 2^(e+1)\<close>, the
  representable numbers of that binade are the multiples of \<open>2^(e-52)\<close>, and
  \<open>float64 x\<close> is the nearest of them. The exponent range is not bounded: overflow
  and gradual underflow are outside the model (a balance is 0 or lies between 0.01 and
  3000000).
\<close>

fun bits :: "nat \<Rightarrow> nat" where
  "bits n = (if n = 0 then 0 else Suc (bits (n div 2)))"

declare bits.simps [simp del]

definition expoente :: "real \<Rightarrow> int" where
  "expoente x =
     (if 1 \<le> x then int (bits (nat \<lfloor>x\<rfloor>)) - 1 else - int (bits (nat (\<lceil>1 / x\<rceil> - 1))))"

definition ulp :: "real \<Rightarrow> real" where
  "ulp x =
     (let e = expoente \<bar>x\<bar>
      in if 52 \<le> e then 2 ^ nat (e - 52) else 1 / 2 ^ nat (52 - e))"

definition float64 :: "real \<Rightarrow> real" where
  "float64 x = (if x = 0 then 0 else sgn x * (of_int (rint (\<bar>x\<bar> / ulp x)) * ulp x))"

text \<open>The float64 product, and numpy's \<open>around\<close> on float64.\<close>

definition fmul :: "real \<Rightarrow> real \<Rightarrow> real" where
  "fmul x y = float64 (x * y)"

definition np_round64 :: "nat \<Rightarrow> real \<Rightarrow> real" where
  "np_round64 d x = float64 (of_int (rint (float64 (x * 10 ^ d))) / 10 ^ d)"

text \<open>\<open>np.clip(a, a_min, a_max)\<close> is \<open>minimum(maximum(a, a_min), a_max)\<close>.\<close>

definition np_clip :: "'a::linorder \<Rightarrow> 'a \<Rightarrow> 'a \<Rightarrow> 'a" where
  "np_clip a a_min a_max = min (max a a_min) a_max"

text \<open>\<open>ndarray.astype(int)\<close> on a float truncates toward zero.\<close>

definition astype_int :: "real \<Rightarrow> int" where
  "astype_int x = (if 0 \<le> x then \<lfloor>x\<rfloor> else \<lceil>x\<rceil>)"

subsection \<open>The pseudo-random generator\<close>

record 'g gerador =
  np_seed :: "nat \<Rightarrow> 'g"
  np_normal :: "real \<Rightarrow> real \<Rightarrow> 'g \<Rightarrow> real \<times> 'g"
  np_exponential :: "real \<Rightarrow> 'g \<Rightarrow> real \<times> 'g"
  np_choice :: "real list \<Rightarrow> 'g \<Rightarrow> nat \<times> 'g"
  np_lognormal :: "real \<Rightarrow> real \<Rightarrow> 'g \<Rightarrow> real \<times> 'g"
  np_negative_binomial :: "real \<Rightarrow> real \<Rightarrow> 'g \<Rightarrow> int \<times> 'g"
  np_beta :: "real \<Rightarrow> real \<Rightarrow> 'g \<Rightarrow> real \<times> 'g"
  np_poisson :: "real \<Rightarrow> 'g \<Rightarrow> int \<times> 'g"

text \<open>
  \<open>np_choice p\<close> returns the position of the chosen element in the list handed to
  \<open>np.random.choice\<close>; \<open>p\<close> is the list of probabilities.

  A call with \<open>size = n\<close> takes \<open>n\<close> draws in sequence.
\<close>

fun amostrar :: "('g \<Rightarrow> 'a \<times> 'g) \<Rightarrow> nat \<Rightarrow> 'g \<Rightarrow> 'a list \<times> 'g" where
  "amostrar d 0 g = ([], g)"
| "amostrar d (Suc n) g =
     (case d g of (x, g') \<Rightarrow> (case amostrar d n g' of (xs, g'') \<Rightarrow> (x # xs, g'')))"

datatype py_error = ValueError

text \<open>numpy refuses a negative size (``negative dimensions are not allowed'').\<close>

definition np_amostra ::
  "('g \<Rightarrow> 'a \<times> 'g) \<Rightarrow> int \<Rightarrow> 'g \<Rightarrow> py_error \<times> 'g + 'a list \<times> 'g" where
  "np_amostra d tamanho g =
     (if tamanho < 0 then Inl (ValueError, g) else Inr (amostrar d (nat tamanho) g))"

text \<open>
  A computation either raises, leaving the generator in the state it had at the raise,
  or returns a value and the advanced state. \<open>entao\<close> sequences two of them: an
  exception of the first skips the second.
\<close>

definition entao ::
  "'e \<times> 'g + 'a \<times> 'g \<Rightarrow> ('a \<Rightarrow> 'g \<Rightarrow> 'e \<times> 'g + 'b \<times> 'g) \<Rightarrow> 'e \<times> 'g + 'b \<times> 'g" where
  "entao m f = (case m of Inl e \<Rightarrow> Inl e | Inr (x, g) \<Rightarrow> f x g)"

text \<open>
  The contract of the library that some properties rest on: a choice is a position of
  the list, and a beta variate lies in the unit interval.
\<close>

definition gerador_ok :: "'g gerador \<Rightarrow> bool" where
  "gerador_ok R \<longleftrightarrow>
     (\<forall>p g. p \<noteq> [] \<longrightarrow> fst (np_choice R p g) < length p) \<and>
     (\<forall>a b g. 0 \<le> fst (np_beta R a b g) \<and> fst (np_beta R a b g) \<le> 1)"

subsection \<open>The DataFrame\<close>

record dataframe =
  id_cliente :: "int list"
  idade :: "int list"
  saldo_conta :: "real list"
  segmento :: "string list"
  tempo_cliente_meses :: "int list"
  num_produtos :: "int list"
  canal_preferido :: "string list"
  satisfacao :: "real list"
  cliente_ativo :: "bool list"
  valor_transacoes_mensais :: "real list"
  freq_contatos_mensais :: "int list"

text \<open>The table that is returned has three more columns.\<close>

record tabela = dataframe +
  receita_mensal :: "real list"
  custo_atendimento_mensal :: "real list"
  rentabilidade_mensal :: "real list"

text \<open>
  The labels of the source. The accented letters are written as their UTF-8 bytes:
  e with circumflex is C3 AA, o with circumflex is C3 B4.
\<close>

definition Agencia :: string where
  "Agencia = ''Ag'' @ [CHR 0xC3, CHR 0xAA] @ ''ncia''"

definition Central_Telefonica :: string where
  "Central_Telefonica = ''Central Telef'' @ [CHR 0xC3, CHR 0xB4] @ ''nica''"

definition Caixa_Eletronico :: string where
  "Caixa_Eletronico = ''Caixa Eletr'' @ [CHR 0xC3, CHR 0xB4] @ ''nico''"

text \<open>The list of lines 86, 132, 137 and 159.\<close>

definition lista_segmentos :: "string list" where
  "lista_segmentos = [''Varejo'', ''Premium'', ''Alta Renda'', ''Private'']"

text \<open>The list of line 98 (the order of the draw).\<close>

definition lista_canais_sorteio :: "string list" where
  "lista_canais_sorteio =
     [''App'', ''Internet Banking'', Agencia, Central_Telefonica, Caixa_Eletronico]"

text \<open>The list of line 148 (the order of the age adjustment).\<close>

definition lista_canais_idade :: "string list" where
  "lista_canais_idade =
     [''App'', ''Internet Banking'', Caixa_Eletronico, Central_Telefonica, Agencia]"

text \<open>The dictionary \<open>custos_base\<close> of lines 168--174, in insertion order.\<close>

definition custos_base :: "(string \<times> real) list" where
  "custos_base =
     [(''App'', 0.5), (''Internet Banking'', 1.0), (Caixa_Eletronico, 3.0),
      (Central_Telefonica, 7.0), (Agencia, 15.0)]"

subsection \<open>Masks\<close>

text \<open>\<open>column == value\<close>.\<close>

definition mascara :: "'a list \<Rightarrow> 'a \<Rightarrow> bool list" where
  "mascara col v = map (\<lambda>x. x = v) col"

text \<open>\<open>sum(mask)\<close>: the number of selected rows.\<close>

definition soma :: "bool list \<Rightarrow> nat" where
  "soma msk = length (filter (\<lambda>b. b) msk)"

text \<open>\<open>col[mask] = f(col[mask])\<close>: the selected positions are rewritten one by one.\<close>

definition onde :: "bool list \<Rightarrow> ('a \<Rightarrow> 'a) \<Rightarrow> 'a list \<Rightarrow> 'a list" where
  "onde msk f col = map2 (\<lambda>m x. if m then f x else x) msk col"

text \<open>
  \<open>col[mask] = values\<close>: the selected positions take the values in order. The source
  always hands over exactly \<open>sum(mask)\<close> values; a position left without a value keeps
  its content.
\<close>

fun atribuir :: "bool list \<Rightarrow> 'a list \<Rightarrow> 'a list \<Rightarrow> 'a list" where
  "atribuir (True # ms) (v # vs) (x # xs) = v # atribuir ms vs xs"
| "atribuir (False # ms) vs (x # xs) = x # atribuir ms vs xs"
| "atribuir ms vs xs = xs"

subsection \<open>The initial draws and the initial DataFrame (lines 74--128)\<close>

text \<open>
  Every column is drawn with \<open>size = n_linhas\<close>, in the order of the source. All
  columns have the same length, so \<open>pd.DataFrame\<close> accepts them.
\<close>

definition sortear_colunas ::
  "'g gerador \<Rightarrow> int \<Rightarrow> 'g \<Rightarrow> py_error \<times> 'g + dataframe \<times> 'g" where
  "sortear_colunas R n_linhas g =
     (let ids_clientes = [1..n_linhas] in
      entao (np_amostra (np_normal R 42 15) n_linhas g) (\<lambda>idades g.
      let idades = map astype_int idades;
          idades = map (\<lambda>x. np_clip x 18 85) idades in
      entao (np_amostra (np_exponential R 10000) n_linhas g) (\<lambda>saldos g.
      let saldos = map (\<lambda>x. np_clip x 0 500000) saldos in
      entao (np_amostra (np_choice R [0.65, 0.20, 0.10, 0.05]) n_linhas g) (\<lambda>segmentos g.
      let segmentos = map (\<lambda>i. lista_segmentos ! i) segmentos in
      entao (np_amostra (np_lognormal R 3.5 1) n_linhas g) (\<lambda>tempo_cliente g.
      let tempo_cliente = map astype_int tempo_cliente;
          tempo_cliente = map (\<lambda>x. np_clip x 1 480) tempo_cliente in
      entao (np_amostra (np_negative_binomial R 3 0.4) n_linhas g) (\<lambda>num_produtos g.
      let num_produtos = map (\<lambda>x. x + 1) num_produtos;
          num_produtos = map (\<lambda>x. np_clip x 1 8) num_produtos in
      entao (np_amostra (np_choice R [0.45, 0.25, 0.15, 0.10, 0.05]) n_linhas g) (\<lambda>canais g.
      let canais = map (\<lambda>i. lista_canais_sorteio ! i) canais in
      entao (np_amostra (np_beta R 7 3) n_linhas g) (\<lambda>satisfacao g.
      let satisfacao = map (\<lambda>x. x * 100) satisfacao in
      entao (np_amostra (np_choice R [0.85, 0.15]) n_linhas g) (\<lambda>ativo g.
      let ativo = map (\<lambda>i. [True, False] ! i) ativo in
      entao (np_amostra (np_exponential R 2000) n_linhas g) (\<lambda>valor_transacoes g.
      let valor_transacoes = map (\<lambda>x. np_clip x 0 50000) valor_transacoes in
      entao (np_amostra (np_poisson R 3) n_linhas g) (\<lambda>freq_contatos g.
      let freq_contatos = map (\<lambda>x. np_clip x 0 30) freq_contatos in
      Inr (\<lparr>id_cliente = ids_clientes,
             idade = idades,
             saldo_conta = map (np_round64 2) saldos,
             segmento = segmentos,
             tempo_cliente_meses = tempo_cliente,
             num_produtos = num_produtos,
             canal_preferido = canais,
             satisfacao = map (np_round 1) satisfacao,
             cliente_ativo = ativo,
             valor_transacoes_mensais = map (np_round 2) valor_transacoes,
             freq_contatos_mensais = freq_contatos\<rparr>, g))))))))))))"

subsection \<open>The correlation passes (lines 130--155)\<close>

text \<open>
  1. Balance by segment (lines 132--134): two float64 products, by \<open>i + 1\<close> and then
  by 1.5.
\<close>

fun escalar_saldo :: "dataframe \<Rightarrow> nat \<times> string \<Rightarrow> dataframe" where
  "escalar_saldo df (i, seg) =
     (let msk = mascara (segmento df) seg
      in df\<lparr>saldo_conta :=
              onde msk (\<lambda>x. fmul (fmul x (real i + 1)) 1.5) (saldo_conta df)\<rparr>)"

definition correlacao_saldo :: "dataframe \<Rightarrow> dataframe" where
  "correlacao_saldo df = foldl escalar_saldo df (enumerate 0 lista_segmentos)"

text \<open>2. Satisfaction by segment, clipped again (lines 137--140).\<close>

fun escalar_satisfacao :: "dataframe \<Rightarrow> nat \<times> string \<Rightarrow> dataframe" where
  "escalar_satisfacao df (i, seg) =
     (let msk = mascara (segmento df) seg;
          df = df\<lparr>satisfacao := onde msk (\<lambda>x. x * (1 + real i * 0.05)) (satisfacao df)\<rparr>
      in df\<lparr>satisfacao := onde msk (\<lambda>x. np_clip x 0 100) (satisfacao df)\<rparr>)"

definition correlacao_satisfacao :: "dataframe \<Rightarrow> dataframe" where
  "correlacao_satisfacao df = foldl escalar_satisfacao df (enumerate 0 lista_segmentos)"

text \<open>3. Transaction value by number of products, \<open>range(1, 9)\<close> (lines 143--145).\<close>

definition escalar_transacoes :: "dataframe \<Rightarrow> int \<Rightarrow> dataframe" where
  "escalar_transacoes df prd =
     (let msk = mascara (num_produtos df) prd
      in df\<lparr>valor_transacoes_mensais :=
              onde msk (\<lambda>x. x * (1 + real_of_int prd * 0.15)) (valor_transacoes_mensais df)\<rparr>)"

definition correlacao_transacoes :: "dataframe \<Rightarrow> dataframe" where
  "correlacao_transacoes df = foldl escalar_transacoes df [1..8]"

text \<open>
  4. Age by channel (lines 148--151): for each channel in turn, as many normal variates
  as the channel has rows are drawn, clipped, truncated and written over the ages of
  those rows.
\<close>

fun ajustar_idade :: "'g gerador \<Rightarrow> dataframe \<times> 'g \<Rightarrow> nat \<times> string \<Rightarrow> dataframe \<times> 'g" where
  "ajustar_idade R (df, g) (i, canal) =
     (let msk = mascara (canal_preferido df) canal
      in case amostrar (np_normal R (30 + real i * 8) 5) (soma msk) g of
           (idade_ajuste, g') \<Rightarrow>
             (df\<lparr>idade := atribuir msk
                     (map astype_int (map (\<lambda>x. np_clip x 18 85) idade_ajuste)) (idade df)\<rparr>,
              g'))"

definition correlacao_idade :: "'g gerador \<Rightarrow> dataframe \<times> 'g \<Rightarrow> dataframe \<times> 'g" where
  "correlacao_idade R dg = foldl (ajustar_idade R) dg (enumerate 0 lista_canais_idade)"

text \<open>5. Products by tenure, clipped again (lines 154--155).\<close>

definition correlacao_produtos :: "dataframe \<Rightarrow> dataframe" where
  "correlacao_produtos df =
     (let df = df\<lparr>num_produtos :=
                  map2 (\<lambda>p t. p + astype_int (real_of_int t / 120))
                    (num_produtos df) (tempo_cliente_meses df)\<rparr>
      in df\<lparr>num_produtos := map (\<lambda>p. np_clip p 1 8) (num_produtos df)\<rparr>)"

text \<open>
  The table after the first \<open>k\<close> passes, with the state of the generator. The
  function runs all five, in the order of the source: balance, satisfaction, transaction
  value, age, products.
\<close>

fun apos_passos :: "'g gerador \<Rightarrow> nat \<Rightarrow> dataframe \<times> 'g \<Rightarrow> dataframe \<times> 'g" where
  "apos_passos R 0 dg = dg"
| "apos_passos R (Suc k) dg =
     (case apos_passos R k dg of (df, g) \<Rightarrow>
        if k = 0 then (correlacao_saldo df, g)
        else if k = 1 then (correlacao_satisfacao df, g)
        else if k = 2 then (correlacao_transacoes df, g)
        else if k = 3 then correlacao_idade R (df, g)
        else if k = 4 then (correlacao_produtos df, g)
        else (df, g))"

definition correlacoes :: "'g gerador \<Rightarrow> dataframe \<times> 'g \<Rightarrow> dataframe \<times> 'g" where
  "correlacoes R dg = apos_passos R 5 dg"

subsection \<open>The financial columns (lines 157--182)\<close>

fun escalar_receita :: "string list \<Rightarrow> real list \<Rightarrow> nat \<times> string \<Rightarrow> real list" where
  "escalar_receita segs base_receita (i, seg) =
     onde (mascara segs seg) (\<lambda>x. x * (1 + real i * 0.5)) base_receita"

fun custo_canal :: "string list \<Rightarrow> real list \<Rightarrow> string \<times> real \<Rightarrow> real list" where
  "custo_canal canais custo_atendimento (canal, custo) =
     onde (mascara canais canal) (\<lambda>_. custo) custo_atendimento"

text \<open>6. Revenue per customer (lines 158--165).\<close>

definition calcular_receita ::
  "'g gerador \<Rightarrow> int \<Rightarrow> dataframe \<Rightarrow> 'g \<Rightarrow> py_error \<times> 'g + real list \<times> 'g" where
  "calcular_receita R n_linhas df g =
     entao (np_amostra (np_lognormal R 3 1) n_linhas g) (\<lambda>base_receita g.
     let base_receita = map (\<lambda>x. x * 10) base_receita;
         base_receita =
           foldl (escalar_receita (segmento df)) base_receita (enumerate 0 lista_segmentos);
         base_receita =
           map2 (\<lambda>b p. b * (1 + real_of_int p * 0.2)) base_receita (num_produtos df);
         base_receita =
           map2 (\<lambda>b v. b + v * 0.01) base_receita (valor_transacoes_mensais df);
         base_receita = onde (cliente_ativo df) (\<lambda>x. x * 1.5) base_receita
     in Inr (map (np_round 2) base_receita, g))"

text \<open>7. Service cost by channel (lines 168--179). \<open>np.zeros\<close> refuses a negative size.\<close>

definition np_zeros :: "int \<Rightarrow> 'g \<Rightarrow> py_error \<times> 'g + real list \<times> 'g" where
  "np_zeros n g = (if n < 0 then Inl (ValueError, g) else Inr (replicate (nat n) 0, g))"

definition calcular_custo ::
  "int \<Rightarrow> dataframe \<Rightarrow> 'g \<Rightarrow> py_error \<times> 'g + real list \<times> 'g" where
  "calcular_custo n_linhas df g =
     entao (np_zeros n_linhas g) (\<lambda>custo_atendimento g.
     let custo_atendimento =
           foldl (custo_canal (canal_preferido df)) custo_atendimento custos_base
     in Inr (map (np_round 2)
               (map2 (\<lambda>c f. c * real_of_int f) custo_atendimento (freq_contatos_mensais df)),
             g))"

text \<open>
  8. Profitability (line 182) is computed from the two columns just stored; the three
  columns are added to the table.
\<close>

definition financeiro ::
  "'g gerador \<Rightarrow> int \<Rightarrow> dataframe \<Rightarrow> 'g \<Rightarrow> py_error \<times> 'g + tabela \<times> 'g" where
  "financeiro R n_linhas df g =
     entao (calcular_receita R n_linhas df g) (\<lambda>receita g.
     entao (calcular_custo n_linhas df g) (\<lambda>custo g.
     let rentabilidade = map (np_round 2) (map2 (\<lambda>r c. r - c) receita custo)
     in Inr (dataframe.extend df (tabela.fields receita custo rentabilidade), g)))"

subsection \<open>The generator\<close>

text \<open>
  \<open>estado\<close> is the state of numpy's global generator when the function is called and
  \<open>agora\<close> the reading of the clock (\<open>datetime.datetime.now()\<close>, line 72). The seed of
  line 68 replaces the state; \<open>data_atual\<close> is assigned and never read. Line 69 seeds
  Python's own \<open>random\<close> module, which the function does not draw from.
\<close>

definition gerar_dados ::
  "'g gerador \<Rightarrow> int \<Rightarrow> 'g \<Rightarrow> 't \<Rightarrow> py_error \<times> 'g + tabela \<times> 'g" where
  "gerar_dados R n_linhas estado agora =
     (let g = np_seed R 42;
          data_atual = agora
      in entao (sortear_colunas R n_linhas g) (\<lambda>df g.
           case correlacoes R (df, g) of (df, g) \<Rightarrow> financeiro R n_linhas df g))"

subsection \<open>Well-formed tables and a concrete generator\<close>

text \<open>All eleven columns have \<open>n\<close> entries.\<close>

definition bem_formado :: "nat \<Rightarrow> 'a dataframe_scheme \<Rightarrow> bool" where
  "bem_formado n df \<longleftrightarrow>
     length (id_cliente df) = n \<and> length (idade df) = n \<and> length (saldo_conta df) = n \<and>
     length (segmento df) = n \<and> length (tempo_cliente_meses df) = n \<and>
     length (num_produtos df) = n \<and> length (canal_preferido df) = n \<and>
     length (satisfacao df) = n \<and> length (cliente_ativo df) = n \<and>
     length (valor_transacoes_mensais df) = n \<and> length (freq_contatos_mensais df) = n"

text \<open>
  A small deterministic generator over a counter, used to run the model on concrete
  inputs. It satisfies \<open>gerador_ok\<close>.
\<close>

definition gerador_teste :: "nat gerador" where
  "gerador_teste =
     \<lparr>np_seed = (\<lambda>s. s),
      np_normal = (\<lambda>mu sigma g. (mu + sigma * (real (g mod 5) - 2), Suc g)),
      np_exponential = (\<lambda>scale g. (scale * real (g mod 7) / 4 + 3 / 100, Suc g)),
      np_choice = (\<lambda>p g. (g mod length p, Suc g)),
      np_lognormal = (\<lambda>m s g. (m + real (g mod 3) / 8, Suc g)),
      np_negative_binomial = (\<lambda>n p g. (int (g mod 9), Suc g)),
      np_beta = (\<lambda>a b g. (real (g mod 11) / 10, Suc g)),
      np_poisson = (\<lambda>lam g. (int (g mod 5), Suc g))\<rparr>"

text \<open>The bounds of the data model, column by column.\<close>

definition limites :: "'a dataframe_scheme \<Rightarrow> bool" where
  "limites df \<longleftrightarrow>
     (\<forall>x\<in>set (idade df). 18 \<le> x \<and> x \<le> 85) \<and>
     (\<forall>x\<in>set (saldo_conta df). 0 \<le> x) \<and>
     (\<forall>x\<in>set (tempo_cliente_meses df). 1 \<le> x \<and> x \<le> 480) \<and>
     (\<forall>x\<in>set (num_produtos df). 1 \<le> x \<and> x \<le> 8) \<and>
     (\<forall>x\<in>set (satisfacao df). 0 \<le> x \<and> x \<le> 100) \<and>
     (\<forall>x\<in>set (freq_contatos_mensais df). 0 \<le> x \<and> x \<le> 30)"

text \<open>A returned table with \<open>n\<close> rows: all fourteen columns have \<open>n\<close> entries.\<close>

definition tabela_com_linhas :: "nat \<Rightarrow> tabela \<Rightarrow> bool" where
  "tabela_com_linhas n t \<longleftrightarrow>
     bem_formado n t \<and> length (receita_mensal t) = n \<and>
     length (custo_atendimento_mensal t) = n \<and> length (rentabilidade_mensal t) = n"

text \<open>The table that the concrete generator yields for one record.\<close>

definition tabela_teste :: tabela where
  "tabela_teste =
     \<lparr>id_cliente = [1], idade = [62], saldo_conta = [2061609041091625 / 549755813888],
      segmento = [''Varejo''], tempo_cliente_meses = [3], num_produtos = [2],
      canal_preferido = [Agencia], satisfacao = [40], cliente_ativo = [False],
      valor_transacoes_mensais = [650039 / 1000], freq_contatos_mensais = [1],
      receita_mensal = [52], custo_atendimento_mensal = [15],
      rentabilidade_mensal = [37]\<rparr>"

text \<open>The initial table and the result of the concrete generator for one and two records.\<close>

definition inicial_teste :: dataframe where
  "inicial_teste =
     \<lparr>id_cliente = [1], idade = [42], saldo_conta = [5497624109577667 / 2199023255552],
      segmento = [''Varejo''], tempo_cliente_meses = [3], num_produtos = [2],
      canal_preferido = [Agencia], satisfacao = [40], cliente_ativo = [False],
      valor_transacoes_mensais = [50003 / 100], freq_contatos_mensais = [1]\<rparr>"

definition tabela_teste_2 :: tabela where
  "tabela_teste_2 =
     \<lparr>id_cliente = [1, 2], idade = [67, 54], saldo_conta = [3092395007378719 / 137438953472, 6184777645251625 / 137438953472],
      segmento = [''Alta Renda'', ''Private''], tempo_cliente_meses = [3, 3],
      num_produtos = [6, 7], canal_preferido = [Agencia, Central_Telefonica],
      satisfacao = [100, 0], cliente_ativo = [True, False],
      valor_transacoes_mensais = [1900057 / 1000, 6150123 / 2000],
      freq_contatos_mensais = [0, 1], receita_mensal = [939 / 4, 903 / 4],
      custo_atendimento_mensal = [0, 7], rentabilidade_mensal = [939 / 4, 875 / 4]\<rparr>"

definition inicial_teste_2 :: dataframe where
  "inicial_teste_2 =
     \<lparr>id_cliente = [1, 2], idade = [42, 57], saldo_conta = [5497591124228833 / 1099511627776, 8246370193668833 / 1099511627776],
      segmento = [''Alta Renda'', ''Private''], tempo_cliente_meses = [3, 3],
      num_produtos = [6, 7], canal_preferido = [Agencia, Central_Telefonica],
      satisfacao = [100, 0], cliente_ativo = [True, False],
      valor_transacoes_mensais = [100003 / 100, 150003 / 100],
      freq_contatos_mensais = [0, 1]\<rparr>"

section \<open>Auxiliary facts\<close>

subsection \<open>Draws, masks and assignments\<close>

lemma amostrar_length: "length (fst (amostrar d n g)) = n"
  by (induction n arbitrary: g) (simp_all add: case_prod_beta)

lemma amostrar_set: "x \<in> set (fst (amostrar d n g)) \<Longrightarrow> \<exists>g'. x = fst (d g')"
proof (induction n arbitrary: g)
  case 0
  then show ?case by simp
next
  case (Suc n)
  then show ?case
    by (auto split: prod.splits) (metis fst_conv)+
qed

lemma np_amostra_nonneg: "0 \<le> n \<Longrightarrow> np_amostra d n g = Inr (amostrar d (nat n) g)"
  by (simp add: np_amostra_def)

lemma np_amostra_neg: "n < 0 \<Longrightarrow> np_amostra d n g = Inl (ValueError, g)"
  by (simp add: np_amostra_def)

lemma entao_Inr: "entao (Inr p) f = f (fst p) (snd p)"
  by (simp add: entao_def split: prod.splits)

lemma entao_Inl: "entao (Inl e) f = Inl e"
  by (simp add: entao_def)

lemma mascara_length: "length (mascara col v) = length col"
  by (simp add: mascara_def)

lemma mascara_nth: "k < length col \<Longrightarrow> mascara col v ! k = (col ! k = v)"
  by (simp add: mascara_def)

lemma onde_length: "length (onde m f xs) = min (length m) (length xs)"
  by (simp add: onde_def)

lemma onde_nth:
  "k < length m \<Longrightarrow> k < length xs \<Longrightarrow> onde m f xs ! k = (if m ! k then f (xs ! k) else xs ! k)"
  by (simp add: onde_def)

lemma atribuir_length: "length (atribuir m vs xs) = length xs"
  by (induction m vs xs rule: atribuir.induct) auto

lemma correlacao_saldo_eq:
  "correlacao_saldo df =
     df\<lparr>saldo_conta :=
          foldl (\<lambda>col (i, seg). onde (mascara (segmento df) seg) (\<lambda>x. fmul (fmul x (real i + 1)) 1.5) col)
            (saldo_conta df) (enumerate 0 lista_segmentos)\<rparr>"
  by (simp add: correlacao_saldo_def lista_segmentos_def Let_def)

lemma correlacao_satisfacao_eq:
  "correlacao_satisfacao df =
     df\<lparr>satisfacao :=
          foldl (\<lambda>col (i, seg).
                   onde (mascara (segmento df) seg) (\<lambda>x. np_clip x 0 100)
                     (onde (mascara (segmento df) seg) (\<lambda>x. x * (1 + real i * 0.05)) col))
            (satisfacao df) (enumerate 0 lista_segmentos)\<rparr>"
  by (simp add: correlacao_satisfacao_def lista_segmentos_def Let_def)

lemma upto_1_8: "[1..8] = [1, 2, 3, 4, 5, 6, 7, 8::int]"
  by code_simp

lemma correlacao_transacoes_eq:
  "correlacao_transacoes df =
     df\<lparr>valor_transacoes_mensais :=
          foldl (\<lambda>col prd. onde (mascara (num_produtos df) prd)
                   (\<lambda>x. x * (1 + real_of_int prd * 0.15)) col)
            (valor_transacoes_mensais df) [1..8]\<rparr>"
  by (simp add: correlacao_transacoes_def upto_1_8 escalar_transacoes_def Let_def)

lemma correlacao_produtos_eq:
  "correlacao_produtos df =
     df\<lparr>num_produtos :=
          map (\<lambda>p. np_clip p 1 8)
            (map2 (\<lambda>p t. p + astype_int (real_of_int t / 120))
               (num_produtos df) (tempo_cliente_meses df))\<rparr>"
  by (simp add: correlacao_produtos_def Let_def)

lemma sortear_colunas_neg: "n < 0 \<Longrightarrow> sortear_colunas R n g = Inl (ValueError, g)"
  by (simp add: sortear_colunas_def np_amostra_neg entao_Inl)

lemma length_upto_1: "length [1..n] = nat n"
  by simp

lemma amostrar_fst:
  assumes "amostrar d n g = (xs, g')"
  shows "length xs = n" and "\<forall>x\<in>set xs. \<exists>s. x = fst (d s)"
  using amostrar_length [of d n g] amostrar_set [of _ d n g] assms by auto

lemma sortear_colunas_eq:
  assumes n0: "0 \<le> n"
    and a1: "amostrar (np_normal R 42 15) (nat n) g = (x1, g1)"
    and a2: "amostrar (np_exponential R 10000) (nat n) g1 = (x2, g2)"
    and a3: "amostrar (np_choice R [0.65, 0.20, 0.10, 0.05]) (nat n) g2 = (x3, g3)"
    and a4: "amostrar (np_lognormal R 3.5 1) (nat n) g3 = (x4, g4)"
    and a5: "amostrar (np_negative_binomial R 3 0.4) (nat n) g4 = (x5, g5)"
    and a6: "amostrar (np_choice R [0.45, 0.25, 0.15, 0.10, 0.05]) (nat n) g5 = (x6, g6)"
    and a7: "amostrar (np_beta R 7 3) (nat n) g6 = (x7, g7)"
    and a8: "amostrar (np_choice R [0.85, 0.15]) (nat n) g7 = (x8, g8)"
    and a9: "amostrar (np_exponential R 2000) (nat n) g8 = (x9, g9)"
    and a10: "amostrar (np_poisson R 3) (nat n) g9 = (x10, g10)"
  shows "sortear_colunas R n g =
     Inr (\<lparr>id_cliente = [1..n],
             idade = map (\<lambda>x. np_clip x 18 85) (map astype_int x1),
             saldo_conta = map (np_round64 2) (map (\<lambda>x. np_clip x 0 500000) x2),
             segmento = map (\<lambda>i. lista_segmentos ! i) x3,
             tempo_cliente_meses = map (\<lambda>x. np_clip x 1 480) (map astype_int x4),
             num_produtos = map (\<lambda>x. np_clip x 1 8) (map (\<lambda>x. x + 1) x5),
             canal_preferido = map (\<lambda>i. lista_canais_sorteio ! i) x6,
             satisfacao = map (np_round 1) (map (\<lambda>x. x * 100) x7),
             cliente_ativo = map (\<lambda>i. [True, False] ! i) x8,
             valor_transacoes_mensais = map (np_round 2) (map (\<lambda>x. np_clip x 0 50000) x9),
             freq_contatos_mensais = map (\<lambda>x. np_clip x 0 30) x10\<rparr>, g10)"
  unfolding sortear_colunas_def Let_def np_amostra_nonneg [OF n0]
  by (simp only: a1 a2 a3 a4 a5 a6 a7 a8 a9 a10 entao_def sum.case prod.case)

lemma sel_extend:
  "receita_mensal (dataframe.extend df (tabela.fields a b c)) = a"
  "custo_atendimento_mensal (dataframe.extend df (tabela.fields a b c)) = b"
  "rentabilidade_mensal (dataframe.extend df (tabela.fields a b c)) = c"
  "id_cliente (dataframe.extend df (tabela.fields a b c)) = id_cliente df"
  "idade (dataframe.extend df (tabela.fields a b c)) = idade df"
  "saldo_conta (dataframe.extend df (tabela.fields a b c)) = saldo_conta df"
  "segmento (dataframe.extend df (tabela.fields a b c)) = segmento df"
  "tempo_cliente_meses (dataframe.extend df (tabela.fields a b c)) = tempo_cliente_meses df"
  "num_produtos (dataframe.extend df (tabela.fields a b c)) = num_produtos df"
  "canal_preferido (dataframe.extend df (tabela.fields a b c)) = canal_preferido df"
  "satisfacao (dataframe.extend df (tabela.fields a b c)) = satisfacao df"
  "cliente_ativo (dataframe.extend df (tabela.fields a b c)) = cliente_ativo df"
  "valor_transacoes_mensais (dataframe.extend df (tabela.fields a b c)) = valor_transacoes_mensais df"
  "freq_contatos_mensais (dataframe.extend df (tabela.fields a b c)) = freq_contatos_mensais df"
  by (simp_all add: dataframe.defs tabela.defs)

lemma soma_Cons: "soma (b # m) = (if b then Suc (soma m) else soma m)"
  by (simp add: soma_def)

lemma soma_Nil: "soma [] = 0"
  by (simp add: soma_def)

lemma atribuir_nth:
  "length m = length xs \<Longrightarrow> soma m \<le> length vs \<Longrightarrow> k < length xs \<Longrightarrow>
   atribuir m vs xs ! k = (if m ! k then vs ! soma (take k m) else xs ! k)"
  by (induction m vs xs arbitrary: k rule: atribuir.induct)
     (auto simp: soma_Cons soma_Nil nth_Cons split: nat.splits)

lemma soma_take_less: "k < length m \<Longrightarrow> m ! k \<Longrightarrow> soma (take k m) < soma m"
proof (induction m arbitrary: k)
  case Nil
  then show ?case by simp
next
  case (Cons b m)
  then show ?case by (cases k) (simp_all add: soma_Cons soma_Nil)
qed

lemma atribuir_set: "set (atribuir m vs xs) \<subseteq> set vs \<union> set xs"
  by (induction m vs xs rule: atribuir.induct) auto

lemma numeral_5_nat: "(5::nat) = Suc (Suc (Suc (Suc (Suc 0))))"
  by simp

lemma correlacoes_vazio:
  assumes "bem_formado 0 df"
  shows "correlacoes R (df, g) = (df, g)"
proof -
  have e: "id_cliente df = []" "idade df = []" "saldo_conta df = []" "segmento df = []"
    "tempo_cliente_meses df = []" "num_produtos df = []" "canal_preferido df = []"
    "satisfacao df = []" "cliente_ativo df = []" "valor_transacoes_mensais df = []"
    "freq_contatos_mensais df = []"
    using assms by (simp_all add: bem_formado_def)
  have 1: "correlacao_saldo df = df"
    by (simp add: correlacao_saldo_eq lista_segmentos_def e onde_def mascara_def)
  have 2: "correlacao_satisfacao df = df"
    by (simp add: correlacao_satisfacao_eq lista_segmentos_def e onde_def mascara_def)
  have 3: "correlacao_transacoes df = df"
    by (simp add: correlacao_transacoes_eq upto_1_8 e onde_def mascara_def)
  have 4: "correlacao_idade R (df, g) = (df, g)"
    by (simp add: correlacao_idade_def lista_canais_idade_def e mascara_def soma_Nil)
  have 5: "correlacao_produtos df = df"
    by (simp add: correlacao_produtos_eq e)
  show ?thesis
    by (simp add: correlacoes_def numeral_5_nat 1 2 3 4 5)
qed

lemma gerar_dados_zero:
  "gerar_dados R 0 estado agora =
     Inr (\<lparr>id_cliente = [], idade = [], saldo_conta = [], segmento = [],
            tempo_cliente_meses = [], num_produtos = [], canal_preferido = [],
            satisfacao = [], cliente_ativo = [], valor_transacoes_mensais = [],
            freq_contatos_mensais = [], receita_mensal = [],
            custo_atendimento_mensal = [], rentabilidade_mensal = []\<rparr>, np_seed R 42)"
proof -
  let ?df = "\<lparr>id_cliente = [], idade = [], saldo_conta = [], segmento = [],
            tempo_cliente_meses = [], num_produtos = [], canal_preferido = [],
            satisfacao = [], cliente_ativo = [], valor_transacoes_mensais = [],
            freq_contatos_mensais = []\<rparr>"
  have s: "sortear_colunas R 0 (np_seed R 42) = Inr (?df, np_seed R 42)"
    using sortear_colunas_eq [of 0 R "np_seed R 42" "[]" "np_seed R 42" "[]" "np_seed R 42"
        "[]" "np_seed R 42" "[]" "np_seed R 42" "[]" "np_seed R 42" "[]" "np_seed R 42"
        "[]" "np_seed R 42" "[]" "np_seed R 42" "[]" "np_seed R 42" "[]" "np_seed R 42"]
    by simp
  have c: "correlacoes R (?df, np_seed R 42) = (?df, np_seed R 42)"
    by (rule correlacoes_vazio) (simp add: bem_formado_def)
  have f: "financeiro R 0 ?df (np_seed R 42) =
     Inr (\<lparr>id_cliente = [], idade = [], saldo_conta = [], segmento = [],
            tempo_cliente_meses = [], num_produtos = [], canal_preferido = [],
            satisfacao = [], cliente_ativo = [], valor_transacoes_mensais = [],
            freq_contatos_mensais = [], receita_mensal = [],
            custo_atendimento_mensal = [], rentabilidade_mensal = []\<rparr>, np_seed R 42)"
    by (simp add: financeiro_def calcular_receita_def calcular_custo_def np_zeros_def
        np_amostra_def entao_def lista_segmentos_def custos_base_def
        onde_def mascara_def dataframe.defs tabela.defs)
  show ?thesis
    by (simp add: gerar_dados_def s c f entao_def)
qed

lemma gerar_dados_neg: "n < 0 \<Longrightarrow> gerar_dados R n estado agora = Inl (ValueError, np_seed R 42)"
  by (simp add: gerar_dados_def sortear_colunas_neg entao_Inl)

subsection \<open>Rounding to the nearest integer and to float64\<close>

lemma rint_bounds: "\<lfloor>x\<rfloor> \<le> rint x \<and> rint x \<le> \<lceil>x\<rceil>"
proof -
  have "x \<noteq> of_int \<lfloor>x\<rfloor> \<Longrightarrow> \<lceil>x\<rceil> = \<lfloor>x\<rfloor> + 1"
    by (metis ceiling_altdef)
  moreover have "\<lfloor>x\<rfloor> \<le> \<lceil>x\<rceil>"
    by (simp add: floor_le_ceiling)
  ultimately show ?thesis
    by (auto simp: rint_def Let_def)
qed

lemma rint_of_int: "rint (of_int k) = k"
  by (simp add: rint_def)

lemma bits_0: "bits 0 = 0"
  by (subst bits.simps) simp

lemma bits_Suc_0: "bits (Suc 0) = Suc 0"
  by (subst bits.simps) (simp add: bits_0)

lemma bits_numeral: "bits (numeral k) = Suc (bits (numeral k div 2))"
  by (subst bits.simps) simp

lemmas bits_eval = bits_0 bits_Suc_0 bits_numeral

lemma ulp_pos: "0 < ulp x"
  by (simp add: ulp_def Let_def)

lemma float64_nonneg: "0 \<le> x \<Longrightarrow> 0 \<le> float64 x"
proof -
  assume x: "0 \<le> x"
  have "0 \<le> \<bar>x\<bar> / ulp x" using ulp_pos [of x] by simp
  then have "0 \<le> \<lfloor>\<bar>x\<bar> / ulp x\<rfloor>" by simp
  with rint_bounds [of "\<bar>x\<bar> / ulp x"] have "0 \<le> rint (\<bar>x\<bar> / ulp x)" by linarith
  then have "0 \<le> real_of_int (rint (\<bar>x\<bar> / ulp x)) * ulp x"
    using ulp_pos [of x] by simp
  with x show ?thesis by (simp add: float64_def sgn_if)
qed

lemma fmul_nonneg: "0 \<le> x \<Longrightarrow> 0 \<le> y \<Longrightarrow> 0 \<le> fmul x y"
  by (simp add: fmul_def float64_nonneg)

lemma np_round64_nonneg: "0 \<le> x \<Longrightarrow> 0 \<le> np_round64 d x"
proof -
  assume "0 \<le> x"
  then have "0 \<le> float64 (x * 10 ^ d)" by (simp add: float64_nonneg)
  then have "0 \<le> \<lfloor>float64 (x * 10 ^ d)\<rfloor>" by simp
  with rint_bounds [of "float64 (x * 10 ^ d)"] have "0 \<le> rint (float64 (x * 10 ^ d))"
    by linarith
  then show ?thesis by (simp add: np_round64_def float64_nonneg)
qed

lemma bits_bounds: "0 < n \<Longrightarrow> 2 ^ (bits n - 1) \<le> n \<and> n < 2 ^ bits n"
proof (induction n rule: bits.induct)
  case (1 n)
  show ?case
  proof (cases "n div 2 = 0")
    case True
    with "1.prems" have "n = 1" by arith
    then show ?thesis by (simp add: bits_Suc_0)
  next
    case False
    with "1.prems" "1.IH" have ih: "2 ^ (bits (n div 2) - 1) \<le> n div 2" "n div 2 < 2 ^ bits (n div 2)"
      by simp_all
    have b: "bits n = Suc (bits (n div 2))" using "1.prems" by (subst bits.simps) simp
    have p: "0 < bits (n div 2)" using False by (subst bits.simps) simp
    then have "(2::nat) ^ bits (n div 2) = 2 * 2 ^ (bits (n div 2) - 1)"
      by (cases "bits (n div 2)") simp_all
    with ih have "(2::nat) ^ bits (n div 2) \<le> 2 * (n div 2)" by simp
    moreover have "2 * (n div 2) \<le> n" by simp
    moreover from ih have "n < 2 * 2 ^ bits (n div 2)" by arith
    ultimately have "2 ^ bits (n div 2) \<le> n" "n < 2 * 2 ^ bits (n div 2)" by simp_all
    then show ?thesis by (simp add: b)
  qed
qed

lemma powi_pos: "0 < (2::real) powi e"
  by simp

lemma powi_Suc: "(2::real) powi (e + 1) = 2 * 2 powi e"
  by (simp add: power_int_add)

lemma powi_mono: "e \<le> e' \<Longrightarrow> (2::real) powi e \<le> 2 powi e'"
  by (simp add: power_int_increasing)

lemma powi_neg_nat: "(2::real) powi (- int k) = 1 / 2 ^ k"
  by (simp add: power_int_def field_simps)

lemma expoente_bounds:
  assumes "0 < x"
  shows "2 powi (expoente x) \<le> x \<and> x < 2 powi (expoente x + 1)"
proof (cases "1 \<le> x")
  case True
  let ?n = "nat \<lfloor>x\<rfloor>"
  from True have n: "0 < ?n" by simp
  note b = bits_bounds [OF n]
  from n have bp: "0 < bits ?n" by (subst bits.simps) simp
  have e: "expoente x = int (bits ?n) - 1" using True by (simp add: expoente_def)
  have rn: "real ?n = of_int \<lfloor>x\<rfloor>" using True by simp
  have "real ?n \<le> x" unfolding rn by simp
  moreover have "x < real ?n + 1" unfolding rn by simp
  moreover from b have "(2::real) ^ (bits ?n - 1) \<le> real ?n"
    by (metis of_nat_le_iff of_nat_numeral of_nat_power)
  moreover from b have "real ?n + 1 \<le> 2 ^ bits ?n"
    by (metis Suc_leI of_nat_Suc of_nat_le_iff of_nat_numeral of_nat_power add.commute)
  moreover have "(2::real) powi (int (bits ?n) - 1) = 2 ^ (bits ?n - 1)"
    using bp by (simp add: power_int_def nat_diff_distrib')
  moreover have "(2::real) powi (int (bits ?n) - 1 + 1) = 2 ^ bits ?n"
    by (simp add: power_int_def)
  ultimately show ?thesis unfolding e by linarith
next
  case False
  let ?y = "1 / x"
  let ?c = "\<lceil>?y\<rceil>"
  let ?n = "nat (?c - 1)"
  let ?k = "bits ?n"
  from False assms have y1: "1 < ?y" by simp
  then have c2: "2 \<le> ?c" by linarith
  then have n: "0 < ?n" by simp
  note b = bits_bounds [OF n]
  from n have kp: "0 < ?k" by (subst bits.simps) simp
  have e: "expoente x = - int ?k" using False by (simp add: expoente_def)
  from c2 have "0 \<le> ?c - 1" by linarith
  then have "real ?n = real_of_int (?c - 1)" by (rule of_nat_nat)
  then have rn: "real ?n = of_int ?c - 1" by simp
  have yl: "real ?n < ?y" unfolding rn by linarith
  have yu: "?y \<le> real ?n + 1" unfolding rn by simp
  from b have l: "(2::real) ^ (?k - 1) \<le> real ?n"
    by (metis of_nat_le_iff of_nat_numeral of_nat_power)
  from b have u: "real ?n + 1 \<le> 2 ^ ?k"
    by (metis Suc_leI of_nat_Suc of_nat_le_iff of_nat_numeral of_nat_power add.commute)
  from l yl have "(2::real) ^ (?k - 1) < 1 / x" by linarith
  then have "x * 2 ^ (?k - 1) < 1" using assms by (simp add: field_simps)
  then have xu: "x < 1 / 2 ^ (?k - 1)" by (simp add: field_simps)
  from u yu have "1 / x \<le> (2::real) ^ ?k" by linarith
  then have "1 \<le> x * 2 ^ ?k" using assms by (simp add: field_simps)
  then have xl: "1 / 2 ^ ?k \<le> x" by (simp add: field_simps)
  have p1: "(2::real) powi (- int ?k) = 1 / 2 ^ ?k"
    by (rule powi_neg_nat)
  have p2: "(2::real) powi (- int ?k + 1) = 1 / 2 ^ (?k - 1)"
  proof -
    from kp obtain j where j: "?k = Suc j" by (cases ?k) simp_all
    then have "- int ?k + 1 = - int j" by simp
    then have "(2::real) powi (- int ?k + 1) = 2 powi (- int j)" by (simp only:)
    also have "\<dots> = 1 / 2 ^ j" by (rule powi_neg_nat)
    finally show ?thesis by (simp add: j)
  qed
  from xl xu show ?thesis unfolding e p1 p2 by simp
qed

lemma expoente_unique:
  assumes "0 < x" and "2 powi e \<le> x" and "x < 2 powi (e + 1)"
  shows "expoente x = e"
proof (rule ccontr)
  assume n: "expoente x \<noteq> e"
  note b = expoente_bounds [OF assms(1)]
  show False
  proof (cases "expoente x < e")
    case True
    then have "(2::real) powi (expoente x + 1) \<le> 2 powi e" by (intro powi_mono) simp
    with b assms(2) show False by linarith
  next
    case False
    with n have "e + 1 \<le> expoente x" by simp
    then have "(2::real) powi (e + 1) \<le> 2 powi (expoente x)" by (rule powi_mono)
    with b assms(3) show False by linarith
  qed
qed

lemma ulp_powi: "ulp x = 2 powi (expoente \<bar>x\<bar> - 52)"
  by (simp add: ulp_def Let_def power_int_def field_simps nat_diff_distrib')

lemma expoente_double: "0 < x \<Longrightarrow> expoente (2 * x) = expoente x + 1"
proof -
  assume x: "0 < x"
  note b = expoente_bounds [OF x]
  have "(2::real) powi (expoente x + 1) \<le> 2 * x"
    using b by (simp add: powi_Suc)
  moreover have "2 * x < (2::real) powi (expoente x + 1 + 1)"
    using b by (simp only: powi_Suc [of "expoente x + 1"]) simp
  ultimately show ?thesis using x by (intro expoente_unique) simp_all
qed

lemma ulp_double: "x \<noteq> 0 \<Longrightarrow> ulp (2 * x) = 2 * ulp x"
proof -
  assume "x \<noteq> 0"
  then have "0 < \<bar>x\<bar>" by simp
  from expoente_double [OF this] have "expoente \<bar>2 * x\<bar> = expoente \<bar>x\<bar> + 1"
    by (simp add: abs_mult)
  then have "ulp (2 * x) = 2 powi (expoente \<bar>x\<bar> - 52 + 1)"
    by (simp add: ulp_powi)
  then show ?thesis by (simp only: powi_Suc ulp_powi)
qed

lemma float64_double: "float64 (2 * x) = 2 * float64 x"
proof (cases "x = 0")
  case True
  then show ?thesis by (simp add: float64_def)
next
  case False
  have "\<bar>2 * x\<bar> / ulp (2 * x) = \<bar>x\<bar> / ulp x"
    using ulp_pos [of x] by (simp add: ulp_double [OF False] abs_mult)
  moreover have "sgn (2 * x) = sgn x" by (simp add: sgn_mult)
  ultimately show ?thesis
    using False by (simp add: float64_def ulp_double [OF False])
qed

lemma float64_quad: "float64 (4 * x) = 4 * float64 x"
proof -
  have "float64 (4 * x) = float64 (2 * (2 * x))" by simp
  also have "\<dots> = 2 * (2 * float64 x)" by (simp only: float64_double)
  finally show ?thesis by simp
qed

lemma float64_minus: "float64 (- x) = - float64 x"
proof -
  have "ulp (- x) = ulp x" by (simp add: ulp_def)
  then show ?thesis by (simp add: float64_def sgn_minus)
qed

lemma float64_pos_eq: "0 < x \<Longrightarrow> float64 x = of_int (rint (x / ulp x)) * ulp x"
  by (simp add: float64_def)

lemma float64_idem_pos:
  assumes x: "0 < x"
  shows "float64 (float64 x) = float64 x"
proof -
  define e where "e = expoente x"
  define u where "u = (2::real) powi (e - 52)"
  define m where "m = rint (x / u)"
  have up: "0 < u" by (simp add: u_def)
  have ux: "ulp x = u" using x by (simp add: ulp_powi u_def e_def)
  have y: "float64 x = of_int m * u" using x by (simp add: float64_pos_eq ux m_def)
  have pe: "(2::real) powi e = 2 ^ 52 * u"
  proof -
    have "(2::real) powi e = 2 powi (52 + (e - 52))" by simp
    also have "\<dots> = 2 powi 52 * 2 powi (e - 52)" by (rule power_int_add) simp
    finally show ?thesis by (simp add: u_def)
  qed
  have pe1: "(2::real) powi (e + 1) = 2 ^ 53 * u"
    by (simp add: powi_Suc pe)
  from expoente_bounds [OF x] have b: "2 ^ 52 * u \<le> x" "x < 2 ^ 53 * u"
    by (simp_all add: e_def [symmetric] pe pe1)
  from b up have q: "2 ^ 52 \<le> x / u" "x / u < 2 ^ 53"
    by (simp_all add: field_simps)
  have "(2::int) ^ 52 \<le> \<lfloor>x / u\<rfloor>"
    using q(1) by (simp add: le_floor_iff)
  moreover have "\<lceil>x / u\<rceil> \<le> (2::int) ^ 53"
    using q(2) by (simp add: ceiling_le_iff)
  ultimately have mb: "2 ^ 52 \<le> m" "m \<le> 2 ^ 53"
    unfolding m_def using rint_bounds [of "x / u"] by linarith+
  from mb(1) have mp: "0 < real_of_int m" by simp
  with up have yp: "0 < real_of_int m * u" by simp
  show ?thesis
  proof (cases "m = 2 ^ 53")
    case False
    with mb have m1: "m < 2 ^ 53" by simp
    have "real_of_int (2 ^ 52) \<le> real_of_int m" using mb(1) by (simp only: of_int_le_iff)
    then have l: "2 powi e \<le> real_of_int m * u" using up by (simp add: pe)
    have "real_of_int m < real_of_int (2 ^ 53)" using m1 by (simp only: of_int_less_iff)
    then have h: "real_of_int m * u < 2 powi (e + 1)" using up by (simp add: pe1)
    from expoente_unique [OF yp l h] have "ulp (real_of_int m * u) = u"
      using yp by (simp add: ulp_powi u_def)
    with yp up show ?thesis by (simp add: y float64_pos_eq rint_of_int)
  next
    case True
    have l: "2 powi (e + 1) \<le> real_of_int m * u" by (simp add: True pe1)
    have h: "real_of_int m * u < 2 powi (e + 1 + 1)"
      using up by (simp only: powi_Suc [of "e + 1"] pe1 True) simp
    from expoente_unique [OF yp l h] have "ulp (real_of_int m * u) = 2 powi (e + 1 - 52)"
      using yp by (simp add: ulp_powi)
    also have "\<dots> = 2 * u"
    proof -
      have "e + 1 - 52 = (e - 52) + 1" by simp
      then show ?thesis by (simp only: powi_Suc u_def)
    qed
    finally have u2: "ulp (real_of_int m * u) = 2 * u" .
    have "real_of_int m * u / (2 * u) = real_of_int (2 ^ 52)"
      using up by (simp add: True)
    then have rr: "rint (real_of_int m * u / (2 * u)) = 2 ^ 52"
      by (simp only: rint_of_int)
    have "float64 (real_of_int m * u) =
        of_int (rint (real_of_int m * u / ulp (real_of_int m * u))) * ulp (real_of_int m * u)"
      using yp by (rule float64_pos_eq)
    also have "\<dots> = real_of_int (2 ^ 52) * (2 * u)"
      by (simp only: u2 rr)
    also have "\<dots> = real_of_int m * u"
      by (simp add: True)
    finally show ?thesis by (simp only: y)
  qed
qed

lemma float64_idem: "float64 (float64 x) = float64 x"
proof -
  consider "x = 0" | "0 < x" | "x < 0" by linarith
  then show ?thesis
  proof cases
    case 1
    then show ?thesis by (simp add: float64_def)
  next
    case 2
    then show ?thesis by (rule float64_idem_pos)
  next
    case 3
    then have "0 < - x" by simp
    from float64_idem_pos [OF this] show ?thesis by (simp add: float64_minus)
  qed
qed

lemma np_round64_rep: "float64 (np_round64 d x) = np_round64 d x"
  by (simp add: np_round64_def float64_idem)

lemma fmul_um: "float64 r = r \<Longrightarrow> fmul (fmul r 1) y = fmul r y"
  by (simp add: fmul_def)

lemma fmul_dois: "float64 r = r \<Longrightarrow> fmul (fmul r 2) (3 / 2) = fmul r 3"
proof -
  assume r: "float64 r = r"
  have "float64 (r * 2) = float64 (2 * r)" by (simp add: mult.commute)
  also have "\<dots> = 2 * r" by (simp only: float64_double r)
  finally have "fmul (fmul r 2) (3 / 2) = float64 (2 * r * (3 / 2))"
    by (simp only: fmul_def)
  also have "2 * r * (3 / 2) = r * 3" by simp
  finally show ?thesis by (simp only: fmul_def)
qed

lemma fmul_quatro: "float64 r = r \<Longrightarrow> fmul (fmul r 4) (3 / 2) = fmul r 6"
proof -
  assume r: "float64 r = r"
  have "float64 (r * 4) = float64 (4 * r)" by (simp add: mult.commute)
  also have "\<dots> = 4 * r" by (simp only: float64_quad r)
  finally have "fmul (fmul r 4) (3 / 2) = float64 (4 * r * (3 / 2))"
    by (simp only: fmul_def)
  also have "4 * r * (3 / 2) = r * 6" by simp
  finally show ?thesis by (simp only: fmul_def)
qed

subsection \<open>Rounding, clipping and masks\<close>

lemma np_round_idem: "np_round d (np_round d x) = np_round d x"
  by (simp add: np_round_def rint_of_int)

lemma np_round_zero: "np_round d 0 = 0"
  by (simp add: np_round_def rint_def)

lemma np_round_nonneg: "0 \<le> x \<Longrightarrow> 0 \<le> np_round d x"
proof -
  assume "0 \<le> x"
  then have "0 \<le> \<lfloor>x * 10 ^ d\<rfloor>" by simp
  with rint_bounds [of "x * 10 ^ d"] have "0 \<le> rint (x * 10 ^ d)" by linarith
  then show ?thesis by (simp add: np_round_def)
qed

lemma np_round_1_le_100: "x \<le> 100 \<Longrightarrow> np_round 1 x \<le> 100"
proof -
  assume "x \<le> 100"
  then have "x * 10 \<le> of_int 1000" by simp
  then have "\<lceil>x * 10\<rceil> \<le> 1000" by (simp only: ceiling_le_iff)
  with rint_bounds [of "x * 10"] have "rint (x * 10) \<le> 1000" by linarith
  then have "real_of_int (rint (x * 10)) \<le> 1000" by linarith
  then show ?thesis by (simp add: np_round_def)
qed

lemma np_clip_bounds: "lo \<le> hi \<Longrightarrow> lo \<le> np_clip x lo hi \<and> np_clip x lo hi \<le> hi"
  by (auto simp: np_clip_def)

lemma np_clip_id: "lo \<le> x \<Longrightarrow> x \<le> hi \<Longrightarrow> np_clip x lo hi = x"
  by (auto simp: np_clip_def)

lemma astype_int_clip_idade:
  "18 \<le> astype_int (np_clip x 18 85) \<and> astype_int (np_clip x 18 85) \<le> 85"
proof -
  have "(18::real) \<le> np_clip x 18 85 \<and> np_clip x 18 85 \<le> 85"
    by (rule np_clip_bounds) simp
  then show ?thesis
    by (auto simp: astype_int_def le_floor_iff floor_le_iff)
qed

lemma onde_set: "set (onde m f col) \<subseteq> f ` set col \<union> set col"
proof
  fix x assume "x \<in> set (onde m f col)"
  then obtain k where k: "k < length (onde m f col)" "x = onde m f col ! k"
    by (auto simp: in_set_conv_nth)
  then have "k < length m" "k < length col" by (simp_all add: onde_length)
  with k show "x \<in> f ` set col \<union> set col"
    by (auto simp: onde_nth)
qed

lemma onde_preserva:
  "\<forall>x\<in>set col. P x \<Longrightarrow> \<forall>x. P x \<longrightarrow> P (f x) \<Longrightarrow> \<forall>x\<in>set (onde m f col). P x"
  using onde_set [of m f col] by auto

lemma onde_onde_preserva:
  "\<forall>x\<in>set col. P x \<Longrightarrow> \<forall>x. P x \<longrightarrow> P (f (h x)) \<Longrightarrow>
   \<forall>x\<in>set (onde m f (onde m h col)). P x"
proof
  fix x assume a: "\<forall>x\<in>set col. P x" "\<forall>x. P x \<longrightarrow> P (f (h x))" "x \<in> set (onde m f (onde m h col))"
  then obtain k where k: "k < length (onde m f (onde m h col))" "x = onde m f (onde m h col) ! k"
    by (auto simp: in_set_conv_nth)
  then have kl: "k < length m" "k < length col" by (simp_all add: onde_length)
  then have "col ! k \<in> set col" by simp
  with a kl k show "P x"
    by (auto simp: onde_nth onde_length)
qed

lemma foldl_preserva:
  "(\<And>a x. x \<in> set L \<Longrightarrow> Q a \<Longrightarrow> Q (f a x)) \<Longrightarrow> Q a \<Longrightarrow> Q (foldl f a L)"
  by (induction L arbitrary: a) auto

subsection \<open>The passes on a well-formed table\<close>

lemma correlacao_saldo_bem_formado:
  "bem_formado n df \<Longrightarrow> bem_formado n (correlacao_saldo df)"
  by (simp add: correlacao_saldo_eq bem_formado_def lista_segmentos_def onde_length mascara_length)

lemma correlacao_satisfacao_bem_formado:
  "bem_formado n df \<Longrightarrow> bem_formado n (correlacao_satisfacao df)"
  by (simp add: correlacao_satisfacao_eq bem_formado_def lista_segmentos_def onde_length
      mascara_length)

lemma correlacao_transacoes_bem_formado:
  "bem_formado n df \<Longrightarrow> bem_formado n (correlacao_transacoes df)"
  by (simp add: correlacao_transacoes_eq bem_formado_def upto_1_8 onde_length mascara_length)

lemma correlacao_produtos_bem_formado:
  "bem_formado n df \<Longrightarrow> bem_formado n (correlacao_produtos df)"
  by (simp add: correlacao_produtos_eq bem_formado_def)

lemma ajustar_idade_forma:
  assumes "ajustar_idade R (df, g) ic = (df', g')"
  shows "\<exists>xs. df' = df\<lparr>idade := xs\<rparr> \<and> length xs = length (idade df)"
  using assms by (cases ic) (auto simp: Let_def atribuir_length split: prod.splits)

lemma foldl_ajustar_idade_forma:
  "foldl (ajustar_idade R) (df, g) L = (df', g') \<Longrightarrow>
   \<exists>xs. df' = df\<lparr>idade := xs\<rparr> \<and> length xs = length (idade df)"
proof (induction L arbitrary: df g)
  case Nil
  then show ?case by (auto intro: exI [of _ "idade df"])
next
  case (Cons ic L)
  obtain df1 g1 where s: "ajustar_idade R (df, g) ic = (df1, g1)"
    by (cases "ajustar_idade R (df, g) ic")
  from ajustar_idade_forma [OF s] obtain xs where
    xs: "df1 = df\<lparr>idade := xs\<rparr>" "length xs = length (idade df)" by blast
  from Cons.prems s have "foldl (ajustar_idade R) (df1, g1) L = (df', g')" by simp
  from Cons.IH [OF this] obtain ys where
    ys: "df' = df1\<lparr>idade := ys\<rparr>" "length ys = length (idade df1)" by blast
  with xs show ?case by auto
qed

lemma correlacao_idade_forma:
  "correlacao_idade R (df, g) = (df', g') \<Longrightarrow>
   \<exists>xs. df' = df\<lparr>idade := xs\<rparr> \<and> length xs = length (idade df)"
  unfolding correlacao_idade_def by (rule foldl_ajustar_idade_forma)

lemma correlacao_idade_bem_formado:
  "correlacao_idade R (df, g) = (df', g') \<Longrightarrow> bem_formado n df \<Longrightarrow> bem_formado n df'"
  using correlacao_idade_forma [of R df g df' g'] by (auto simp: bem_formado_def)

subsection \<open>The passes keep the bounds\<close>

lemma correlacao_saldo_limites: "limites df \<Longrightarrow> limites (correlacao_saldo df)"
proof -
  assume l: "limites df"
  have "\<forall>x\<in>set (foldl (\<lambda>col (i, seg). onde (mascara (segmento df) seg)
            (\<lambda>x. fmul (fmul x (real i + 1)) 1.5) col) (saldo_conta df) (enumerate 0 lista_segmentos)). 0 \<le> x"
  proof (rule foldl_preserva [where Q = "\<lambda>col. \<forall>x\<in>set col. (0::real) \<le> x"])
    show "\<forall>x\<in>set (saldo_conta df). 0 \<le> x" using l by (simp add: limites_def)
  next
    fix a :: "real list" and x :: "nat \<times> string"
    assume "\<forall>x\<in>set a. 0 \<le> x"
    then show "\<forall>y\<in>set (case x of (i, seg) \<Rightarrow> onde (mascara (segmento df) seg)
            (\<lambda>x. fmul (fmul x (real i + 1)) 1.5) a). 0 \<le> y"
      by (cases x) (simp, rule onde_preserva, simp_all add: fmul_nonneg)
  qed
  with l show ?thesis by (simp add: correlacao_saldo_eq limites_def)
qed

lemma correlacao_satisfacao_limites: "limites df \<Longrightarrow> limites (correlacao_satisfacao df)"
proof -
  assume l: "limites df"
  have "\<forall>x\<in>set (foldl (\<lambda>col (i, seg).
                   onde (mascara (segmento df) seg) (\<lambda>x. np_clip x 0 100)
                     (onde (mascara (segmento df) seg) (\<lambda>x. x * (1 + real i * 0.05)) col))
            (satisfacao df) (enumerate 0 lista_segmentos)). 0 \<le> x \<and> x \<le> 100"
  proof (rule foldl_preserva [where Q = "\<lambda>col. \<forall>x\<in>set col. (0::real) \<le> x \<and> x \<le> 100"])
    show "\<forall>x\<in>set (satisfacao df). 0 \<le> x \<and> x \<le> 100" using l by (simp add: limites_def)
  next
    fix a :: "real list" and x :: "nat \<times> string"
    assume a: "\<forall>x\<in>set a. 0 \<le> x \<and> x \<le> 100"
    have c: "\<And>y::real. 0 \<le> np_clip y 0 100 \<and> np_clip y 0 100 \<le> 100"
      by (rule np_clip_bounds) simp
    show "\<forall>y\<in>set (case x of (i, seg) \<Rightarrow> onde (mascara (segmento df) seg) (\<lambda>x. np_clip x 0 100)
                     (onde (mascara (segmento df) seg) (\<lambda>x. x * (1 + real i * 0.05)) a)).
             0 \<le> y \<and> y \<le> 100"
      using a c by (cases x) (simp, rule onde_onde_preserva, simp_all)
  qed
  with l show ?thesis by (simp add: correlacao_satisfacao_eq limites_def)
qed

lemma correlacao_transacoes_limites: "limites df \<Longrightarrow> limites (correlacao_transacoes df)"
  by (simp add: correlacao_transacoes_eq limites_def)

lemma correlacao_produtos_limites: "limites df \<Longrightarrow> limites (correlacao_produtos df)"
proof -
  assume l: "limites df"
  have "\<And>p::int. 1 \<le> np_clip p 1 8 \<and> np_clip p 1 8 \<le> 8"
    by (rule np_clip_bounds) simp
  with l show ?thesis by (auto simp: correlacao_produtos_eq limites_def)
qed

lemma ajustar_idade_limites:
  assumes "ajustar_idade R (df, g) ic = (df', g')" and "limites df"
  shows "limites df'"
proof -
  obtain i canal where ic: "ic = (i, canal)" by (cases ic)
  obtain zs g1 where z: "amostrar (np_normal R (30 + real i * 8) 5)
      (soma (mascara (canal_preferido df) canal)) g = (zs, g1)"
    by (cases "amostrar (np_normal R (30 + real i * 8) 5)
      (soma (mascara (canal_preferido df) canal)) g")
  have df': "df' = df\<lparr>idade := atribuir (mascara (canal_preferido df) canal)
      (map astype_int (map (\<lambda>x. np_clip x 18 85) zs)) (idade df)\<rparr>"
    using assms(1) by (simp add: ic Let_def z)
  have "\<forall>x\<in>set (atribuir (mascara (canal_preferido df) canal)
      (map astype_int (map (\<lambda>x. np_clip x 18 85) zs)) (idade df)). 18 \<le> x \<and> x \<le> 85"
    using atribuir_set [of "mascara (canal_preferido df) canal"
        "map astype_int (map (\<lambda>x. np_clip x 18 85) zs)" "idade df"]
      astype_int_clip_idade assms(2)
    by (auto simp: limites_def)
  with assms(2) show ?thesis by (simp add: df' limites_def)
qed

lemma correlacao_idade_limites:
  "correlacao_idade R (df, g) = (df', g') \<Longrightarrow> limites df \<Longrightarrow> limites df'"
proof -
  assume a: "correlacao_idade R (df, g) = (df', g')" and l: "limites df"
  have "limites (fst (foldl (ajustar_idade R) (df, g) (enumerate 0 lista_canais_idade)))"
  proof (rule foldl_preserva [where Q = "\<lambda>dg. limites (fst dg)"])
    show "limites (fst (df, g))" using l by simp
  next
    fix a :: "dataframe \<times> 'a" and x :: "nat \<times> string"
    assume "limites (fst a)"
    then show "limites (fst (ajustar_idade R a x))"
      using ajustar_idade_limites [of R "fst a" "snd a" x]
      by (cases "ajustar_idade R a x") auto
  qed
  with a show ?thesis by (simp add: correlacao_idade_def)
qed

subsection \<open>The composition of the passes\<close>

lemma correlacoes_eq:
  "correlacoes R (df, g) =
     (case correlacao_idade R
             (correlacao_transacoes (correlacao_satisfacao (correlacao_saldo df)), g) of
        (df4, g4) \<Rightarrow> (correlacao_produtos df4, g4))"
  by (simp add: correlacoes_def numeral_5_nat split: prod.splits)

lemma apos_passos_inv:
  assumes "bem_formado n df" and "limites df"
  shows "bem_formado n (fst (apos_passos R k (df, g))) \<and> limites (fst (apos_passos R k (df, g)))"
proof (induction k)
  case 0
  with assms show ?case by simp
next
  case (Suc k)
  obtain d s where ds: "apos_passos R k (df, g) = (d, s)"
    by (cases "apos_passos R k (df, g)")
  obtain d4 s4 where c4: "correlacao_idade R (d, s) = (d4, s4)"
    by (cases "correlacao_idade R (d, s)")
  from Suc ds have inv: "bem_formado n d" "limites d" by simp_all
  show ?case
    using inv c4 correlacao_saldo_bem_formado [of n d] correlacao_saldo_limites [of d]
      correlacao_satisfacao_bem_formado [of n d] correlacao_satisfacao_limites [of d]
      correlacao_transacoes_bem_formado [of n d] correlacao_transacoes_limites [of d]
      correlacao_produtos_bem_formado [of n d] correlacao_produtos_limites [of d]
      correlacao_idade_bem_formado [of R d s d4 s4 n] correlacao_idade_limites [of R d s d4 s4]
    by (simp add: ds)
qed

lemma correlacoes_quadro:
  assumes "correlacoes R (df, g) = (df', g')" and "bem_formado n df"
  shows "bem_formado n df'"
    and "id_cliente df' = id_cliente df"
    and "segmento df' = segmento df"
    and "canal_preferido df' = canal_preferido df"
    and "cliente_ativo df' = cliente_ativo df"
    and "freq_contatos_mensais df' = freq_contatos_mensais df"
    and "saldo_conta df' = saldo_conta (correlacao_saldo df)"
proof -
  let ?d3 = "correlacao_transacoes (correlacao_satisfacao (correlacao_saldo df))"
  obtain d4 s4 where c4: "correlacao_idade R (?d3, g) = (d4, s4)"
    by (cases "correlacao_idade R (?d3, g)")
  from correlacao_idade_forma [OF c4] obtain xs where
    xs: "d4 = ?d3\<lparr>idade := xs\<rparr>" "length xs = length (idade ?d3)" by blast
  from assms(1) c4 have df': "df' = correlacao_produtos d4"
    by (simp add: correlacoes_eq)
  have b3: "bem_formado n ?d3"
    using assms(2) by (intro correlacao_transacoes_bem_formado
        correlacao_satisfacao_bem_formado correlacao_saldo_bem_formado)
  then have "bem_formado n d4" using c4 by (rule correlacao_idade_bem_formado [rotated])
  then show "bem_formado n df'" unfolding df' by (rule correlacao_produtos_bem_formado)
  show "id_cliente df' = id_cliente df"
    by (simp add: df' xs correlacao_produtos_eq correlacao_transacoes_eq
        correlacao_satisfacao_eq correlacao_saldo_eq)
  show "segmento df' = segmento df"
    by (simp add: df' xs correlacao_produtos_eq correlacao_transacoes_eq
        correlacao_satisfacao_eq correlacao_saldo_eq)
  show "canal_preferido df' = canal_preferido df"
    by (simp add: df' xs correlacao_produtos_eq correlacao_transacoes_eq
        correlacao_satisfacao_eq correlacao_saldo_eq)
  show "cliente_ativo df' = cliente_ativo df"
    by (simp add: df' xs correlacao_produtos_eq correlacao_transacoes_eq
        correlacao_satisfacao_eq correlacao_saldo_eq)
  show "freq_contatos_mensais df' = freq_contatos_mensais df"
    by (simp add: df' xs correlacao_produtos_eq correlacao_transacoes_eq
        correlacao_satisfacao_eq correlacao_saldo_eq)
  show "saldo_conta df' = saldo_conta (correlacao_saldo df)"
    by (simp add: df' xs correlacao_produtos_eq correlacao_transacoes_eq
        correlacao_satisfacao_eq)
qed

subsection \<open>The initial table\<close>

lemma sortear_colunas_Inr:
  assumes "sortear_colunas R n g = Inr (df, g')"
  obtains x1 x2 x3 x4 x5 x6 x7 x8 x9 x10 where
    "0 \<le> n"
    "length x1 = nat n" "length x2 = nat n" "length x3 = nat n" "length x4 = nat n"
    "length x5 = nat n" "length x6 = nat n" "length x7 = nat n" "length x8 = nat n"
    "length x9 = nat n" "length x10 = nat n"
    "\<forall>x\<in>set x2. \<exists>s. x = fst (np_exponential R 10000 s)"
    "\<forall>x\<in>set x3. \<exists>s. x = fst (np_choice R [0.65, 0.20, 0.10, 0.05] s)"
    "\<forall>x\<in>set x6. \<exists>s. x = fst (np_choice R [0.45, 0.25, 0.15, 0.10, 0.05] s)"
    "\<forall>x\<in>set x7. \<exists>s. x = fst (np_beta R 7 3 s)"
    "df = \<lparr>id_cliente = [1..n],
             idade = map (\<lambda>x. np_clip x 18 85) (map astype_int x1),
             saldo_conta = map (np_round64 2) (map (\<lambda>x. np_clip x 0 500000) x2),
             segmento = map (\<lambda>i. lista_segmentos ! i) x3,
             tempo_cliente_meses = map (\<lambda>x. np_clip x 1 480) (map astype_int x4),
             num_produtos = map (\<lambda>x. np_clip x 1 8) (map (\<lambda>x. x + 1) x5),
             canal_preferido = map (\<lambda>i. lista_canais_sorteio ! i) x6,
             satisfacao = map (np_round 1) (map (\<lambda>x. x * 100) x7),
             cliente_ativo = map (\<lambda>i. [True, False] ! i) x8,
             valor_transacoes_mensais = map (np_round 2) (map (\<lambda>x. np_clip x 0 50000) x9),
             freq_contatos_mensais = map (\<lambda>x. np_clip x 0 30) x10\<rparr>"
proof -
  have n0: "0 \<le> n"
    using assms sortear_colunas_neg [of n R g] by (cases "n < 0") auto
  obtain x1 g1 where a1: "amostrar (np_normal R 42 15) (nat n) g = (x1, g1)"
    by (cases "amostrar (np_normal R 42 15) (nat n) g")
  obtain x2 g2 where a2: "amostrar (np_exponential R 10000) (nat n) g1 = (x2, g2)"
    by (cases "amostrar (np_exponential R 10000) (nat n) g1")
  obtain x3 g3 where a3: "amostrar (np_choice R [0.65, 0.20, 0.10, 0.05]) (nat n) g2 = (x3, g3)"
    by (cases "amostrar (np_choice R [0.65, 0.20, 0.10, 0.05]) (nat n) g2")
  obtain x4 g4 where a4: "amostrar (np_lognormal R 3.5 1) (nat n) g3 = (x4, g4)"
    by (cases "amostrar (np_lognormal R 3.5 1) (nat n) g3")
  obtain x5 g5 where a5: "amostrar (np_negative_binomial R 3 0.4) (nat n) g4 = (x5, g5)"
    by (cases "amostrar (np_negative_binomial R 3 0.4) (nat n) g4")
  obtain x6 g6 where
    a6: "amostrar (np_choice R [0.45, 0.25, 0.15, 0.10, 0.05]) (nat n) g5 = (x6, g6)"
    by (cases "amostrar (np_choice R [0.45, 0.25, 0.15, 0.10, 0.05]) (nat n) g5")
  obtain x7 g7 where a7: "amostrar (np_beta R 7 3) (nat n) g6 = (x7, g7)"
    by (cases "amostrar (np_beta R 7 3) (nat n) g6")
  obtain x8 g8 where a8: "amostrar (np_choice R [0.85, 0.15]) (nat n) g7 = (x8, g8)"
    by (cases "amostrar (np_choice R [0.85, 0.15]) (nat n) g7")
  obtain x9 g9 where a9: "amostrar (np_exponential R 2000) (nat n) g8 = (x9, g9)"
    by (cases "amostrar (np_exponential R 2000) (nat n) g8")
  obtain x10 g10 where a10: "amostrar (np_poisson R 3) (nat n) g9 = (x10, g10)"
    by (cases "amostrar (np_poisson R 3) (nat n) g9")
  from assms sortear_colunas_eq [OF n0 a1 a2 a3 a4 a5 a6 a7 a8 a9 a10]
  have "df = \<lparr>id_cliente = [1..n],
             idade = map (\<lambda>x. np_clip x 18 85) (map astype_int x1),
             saldo_conta = map (np_round64 2) (map (\<lambda>x. np_clip x 0 500000) x2),
             segmento = map (\<lambda>i. lista_segmentos ! i) x3,
             tempo_cliente_meses = map (\<lambda>x. np_clip x 1 480) (map astype_int x4),
             num_produtos = map (\<lambda>x. np_clip x 1 8) (map (\<lambda>x. x + 1) x5),
             canal_preferido = map (\<lambda>i. lista_canais_sorteio ! i) x6,
             satisfacao = map (np_round 1) (map (\<lambda>x. x * 100) x7),
             cliente_ativo = map (\<lambda>i. [True, False] ! i) x8,
             valor_transacoes_mensais = map (np_round 2) (map (\<lambda>x. np_clip x 0 50000) x9),
             freq_contatos_mensais = map (\<lambda>x. np_clip x 0 30) x10\<rparr>"
    by simp
  then show ?thesis
    using that [of x1 x2 x3 x4 x5 x6 x7 x8 x9 x10] n0
      amostrar_fst [OF a1] amostrar_fst [OF a2] amostrar_fst [OF a3] amostrar_fst [OF a4]
      amostrar_fst [OF a5] amostrar_fst [OF a6] amostrar_fst [OF a7] amostrar_fst [OF a8]
      amostrar_fst [OF a9] amostrar_fst [OF a10]
    by blast
qed

lemma sortear_colunas_bem_formado:
  assumes "sortear_colunas R n g = Inr (df, g')"
  shows "bem_formado (nat n) df" and "id_cliente df = [1..n]" and "0 \<le> n"
  using assms by (rule sortear_colunas_Inr; simp add: bem_formado_def)+

lemma sortear_colunas_limites:
  assumes "sortear_colunas R n g = Inr (df, g')" and "gerador_ok R"
  shows "limites df"
proof (rule sortear_colunas_Inr [OF assms(1)])
  fix x1 x2 x3 x4 x5 x6 x7 x8 x9 x10
  assume b: "\<forall>x\<in>set x7. \<exists>s. x = fst (np_beta R 7 3 s)"
    and df: "df = \<lparr>id_cliente = [1..n],
             idade = map (\<lambda>x. np_clip x 18 85) (map astype_int x1),
             saldo_conta = map (np_round64 2) (map (\<lambda>x. np_clip x 0 500000) x2),
             segmento = map (\<lambda>i. lista_segmentos ! i) x3,
             tempo_cliente_meses = map (\<lambda>x. np_clip x 1 480) (map astype_int x4),
             num_produtos = map (\<lambda>x. np_clip x 1 8) (map (\<lambda>x. x + 1) x5),
             canal_preferido = map (\<lambda>i. lista_canais_sorteio ! i) x6,
             satisfacao = map (np_round 1) (map (\<lambda>x. x * 100) x7),
             cliente_ativo = map (\<lambda>i. [True, False] ! i) x8,
             valor_transacoes_mensais = map (np_round 2) (map (\<lambda>x. np_clip x 0 50000) x9),
             freq_contatos_mensais = map (\<lambda>x. np_clip x 0 30) x10\<rparr>"
  have ci: "\<And>x::int. 18 \<le> np_clip x 18 85 \<and> np_clip x 18 85 \<le> 85"
    by (rule np_clip_bounds) simp
  have ct: "\<And>x::int. 1 \<le> np_clip x 1 480 \<and> np_clip x 1 480 \<le> 480"
    by (rule np_clip_bounds) simp
  have cp: "\<And>x::int. 1 \<le> np_clip x 1 8 \<and> np_clip x 1 8 \<le> 8"
    by (rule np_clip_bounds) simp
  have cf: "\<And>x::int. 0 \<le> np_clip x 0 30 \<and> np_clip x 0 30 \<le> 30"
    by (rule np_clip_bounds) simp
  have cs: "\<And>x::real. 0 \<le> np_round64 2 (np_clip x 0 500000)"
    by (rule np_round64_nonneg) (simp add: np_clip_def)
  have sat: "0 \<le> np_round 1 (x * 100) \<and> np_round 1 (x * 100) \<le> 100" if "x \<in> set x7" for x
  proof -
    from b that obtain s where "x = fst (np_beta R 7 3 s)" by blast
    with assms(2) have "0 \<le> x" "x \<le> 1" by (simp_all add: gerador_ok_def)
    then have "0 \<le> x * 100" "x * 100 \<le> 100" by simp_all
    then show ?thesis by (intro conjI np_round_nonneg np_round_1_le_100)
  qed
  show "limites df"
    using ci ct cp cf cs sat by (simp add: df limites_def)
qed

subsection \<open>The financial columns\<close>

lemma menor_4: "i < 4 \<Longrightarrow> i = 0 \<or> i = Suc 0 \<or> i = 2 \<or> i = (3::nat)"
  by arith

lemma menor_5: "i < 5 \<Longrightarrow> i = 0 \<or> i = Suc 0 \<or> i = 2 \<or> i = 3 \<or> i = (4::nat)"
  by arith

lemma escalar_receita_length:
  "length segs = length base \<Longrightarrow>
   length (foldl (escalar_receita segs) base (enumerate 0 lista_segmentos)) = length base"
  by (simp add: lista_segmentos_def onde_length mascara_length)


lemma calcular_receita_Inr:
  assumes "calcular_receita R n df g = Inr (receita, g')"
  obtains ls where "0 \<le> n" and "amostrar (np_lognormal R 3 1) (nat n) g = (ls, g')"
    and "receita =
      map (np_round 2)
        (onde (cliente_ativo df) (\<lambda>x. x * 1.5)
           (map2 (\<lambda>b v. b + v * 0.01)
              (map2 (\<lambda>b p. b * (1 + real_of_int p * 0.2))
                 (foldl (escalar_receita (segmento df)) (map (\<lambda>x. x * 10) ls)
                    (enumerate 0 lista_segmentos))
                 (num_produtos df))
              (valor_transacoes_mensais df)))"
proof -
  have n0: "0 \<le> n"
    using assms by (cases "n < 0") (auto simp: calcular_receita_def np_amostra_neg entao_Inl)
  obtain ls g1 where a: "amostrar (np_lognormal R 3 1) (nat n) g = (ls, g1)"
    by (cases "amostrar (np_lognormal R 3 1) (nat n) g")
  from assms show ?thesis
    unfolding calcular_receita_def Let_def np_amostra_nonneg [OF n0]
    using that [of ls] n0 a by (simp add: entao_def)
qed

lemma calcular_receita_total:
  "0 \<le> n \<Longrightarrow> \<exists>receita g'. calcular_receita R n df g = Inr (receita, g')"
  unfolding calcular_receita_def Let_def
  by (simp add: np_amostra_nonneg entao_def split: prod.splits)

lemma calcular_custo_Inr:
  assumes "calcular_custo n df g = Inr (custo, g')"
  shows "0 \<le> n" and "g' = g"
    and "custo = map (np_round 2)
           (map2 (\<lambda>c f. c * real_of_int f)
              (foldl (custo_canal (canal_preferido df)) (replicate (nat n) 0) custos_base)
              (freq_contatos_mensais df))"
  using assms
  by (auto simp: calcular_custo_def np_zeros_def entao_def Let_def split: if_splits)

lemma calcular_custo_total:
  "0 \<le> n \<Longrightarrow> \<exists>custo. calcular_custo n df g = Inr (custo, g)"
  by (simp add: calcular_custo_def np_zeros_def entao_def Let_def)

lemma custo_canal_length:
  "length canais = length zs \<Longrightarrow>
   length (foldl (custo_canal canais) zs custos_base) = length zs"
  by (simp add: custos_base_def onde_length mascara_length)

lemma custo_canal_nth:
  assumes "k < n" and "length canais = n"
  shows "foldl (custo_canal canais) (replicate n 0) custos_base ! k =
         (case map_of custos_base (canais ! k) of Some c \<Rightarrow> c | None \<Rightarrow> 0)"
  using assms
  by (auto simp: custos_base_def onde_nth onde_length mascara_length mascara_nth
      Agencia_def Central_Telefonica_def Caixa_Eletronico_def)

lemma gerar_dados_Inr:
  assumes "gerar_dados R n estado agora = Inr (t, g')"
  obtains df0 g0 df5 g5 receita g6 custo where
    "sortear_colunas R n (np_seed R 42) = Inr (df0, g0)"
    "correlacoes R (df0, g0) = (df5, g5)"
    "calcular_receita R n df5 g5 = Inr (receita, g6)"
    "calcular_custo n df5 g6 = Inr (custo, g')"
    "t = dataframe.extend df5
           (tabela.fields receita custo
              (map (np_round 2) (map2 (\<lambda>r c. r - c) receita custo)))"
  using assms
  by (auto simp: gerar_dados_def financeiro_def entao_def Let_def
      split: sum.splits prod.splits)

lemma gerador_ok_choice:
  "gerador_ok R \<Longrightarrow> p \<noteq> [] \<Longrightarrow> fst (np_choice R p g) < length p"
  by (simp add: gerador_ok_def)

lemma segmento_na_lista:
  assumes "sortear_colunas R n g = Inr (df, g')" and "gerador_ok R" and "k < nat n"
  shows "\<exists>i<4. segmento df ! k = lista_segmentos ! i"
proof (rule sortear_colunas_Inr [OF assms(1)])
  fix x3 :: "nat list" and x1 x2 x4 x5 x6 x7 x8 x9 x10
  assume l: "length x3 = nat n"
    and c: "\<forall>x\<in>set x3. \<exists>s. x = fst (np_choice R [0.65, 0.20, 0.10, 0.05] s)"
    and df: "df = \<lparr>id_cliente = [1..n],
             idade = map (\<lambda>x. np_clip x 18 85) (map astype_int x1),
             saldo_conta = map (np_round64 2) (map (\<lambda>x. np_clip x 0 500000) x2),
             segmento = map (\<lambda>i. lista_segmentos ! i) x3,
             tempo_cliente_meses = map (\<lambda>x. np_clip x 1 480) (map astype_int x4),
             num_produtos = map (\<lambda>x. np_clip x 1 8) (map (\<lambda>x. x + 1) x5),
             canal_preferido = map (\<lambda>i. lista_canais_sorteio ! i) x6,
             satisfacao = map (np_round 1) (map (\<lambda>x. x * 100) x7),
             cliente_ativo = map (\<lambda>i. [True, False] ! i) x8,
             valor_transacoes_mensais = map (np_round 2) (map (\<lambda>x. np_clip x 0 50000) x9),
             freq_contatos_mensais = map (\<lambda>x. np_clip x 0 30) x10\<rparr>"
  from l assms(3) have "x3 ! k \<in> set x3" by simp
  with c obtain s where "x3 ! k = fst (np_choice R [0.65, 0.20, 0.10, 0.05] s)" by blast
  with gerador_ok_choice [OF assms(2), of "[0.65, 0.20, 0.10, 0.05]" s]
  have "x3 ! k < 4" by simp
  moreover have "segmento df ! k = lista_segmentos ! (x3 ! k)"
    using l assms(3) by (simp add: df)
  ultimately show ?thesis by blast
qed

lemma canal_na_lista:
  assumes "sortear_colunas R n g = Inr (df, g')" and "gerador_ok R" and "k < nat n"
  shows "\<exists>j<5. canal_preferido df ! k = lista_canais_sorteio ! j"
proof (rule sortear_colunas_Inr [OF assms(1)])
  fix x6 :: "nat list" and x1 x2 x3 x4 x5 x7 x8 x9 x10
  assume l: "length x6 = nat n"
    and c: "\<forall>x\<in>set x6. \<exists>s. x = fst (np_choice R [0.45, 0.25, 0.15, 0.10, 0.05] s)"
    and df: "df = \<lparr>id_cliente = [1..n],
             idade = map (\<lambda>x. np_clip x 18 85) (map astype_int x1),
             saldo_conta = map (np_round64 2) (map (\<lambda>x. np_clip x 0 500000) x2),
             segmento = map (\<lambda>i. lista_segmentos ! i) x3,
             tempo_cliente_meses = map (\<lambda>x. np_clip x 1 480) (map astype_int x4),
             num_produtos = map (\<lambda>x. np_clip x 1 8) (map (\<lambda>x. x + 1) x5),
             canal_preferido = map (\<lambda>i. lista_canais_sorteio ! i) x6,
             satisfacao = map (np_round 1) (map (\<lambda>x. x * 100) x7),
             cliente_ativo = map (\<lambda>i. [True, False] ! i) x8,
             valor_transacoes_mensais = map (np_round 2) (map (\<lambda>x. np_clip x 0 50000) x9),
             freq_contatos_mensais = map (\<lambda>x. np_clip x 0 30) x10\<rparr>"
  from l assms(3) have "x6 ! k \<in> set x6" by simp
  with c obtain s where "x6 ! k = fst (np_choice R [0.45, 0.25, 0.15, 0.10, 0.05] s)" by blast
  with gerador_ok_choice [OF assms(2), of "[0.45, 0.25, 0.15, 0.10, 0.05]" s]
  have "x6 ! k < 5" by simp
  moreover have "canal_preferido df ! k = lista_canais_sorteio ! (x6 ! k)"
    using l assms(3) by (simp add: df)
  ultimately show ?thesis by blast
qed

lemma gerar_dados_linhas:
  assumes "gerar_dados R n estado agora = Inr (t, g')"
  shows "tabela_com_linhas (nat n) t" and "id_cliente t = [1..n]"
proof -
  from assms obtain df0 g0 df5 g5 receita g6 custo where
    s: "sortear_colunas R n (np_seed R 42) = Inr (df0, g0)"
    and c: "correlacoes R (df0, g0) = (df5, g5)"
    and r: "calcular_receita R n df5 g5 = Inr (receita, g6)"
    and u: "calcular_custo n df5 g6 = Inr (custo, g')"
    and t: "t = dataframe.extend df5
           (tabela.fields receita custo
              (map (np_round 2) (map2 (\<lambda>r c. r - c) receita custo)))"
    by (rule gerar_dados_Inr)
  note b0 = sortear_colunas_bem_formado [OF s]
  note q = correlacoes_quadro [OF c b0(1)]
  from q(1) have l5: "length (segmento df5) = nat n" "length (num_produtos df5) = nat n"
    "length (valor_transacoes_mensais df5) = nat n" "length (cliente_ativo df5) = nat n"
    "length (canal_preferido df5) = nat n" "length (freq_contatos_mensais df5) = nat n"
    by (simp_all add: bem_formado_def)
  from r obtain ls where ls: "amostrar (np_lognormal R 3 1) (nat n) g5 = (ls, g6)"
    and rec: "receita =
      map (np_round 2)
        (onde (cliente_ativo df5) (\<lambda>x. x * 1.5)
           (map2 (\<lambda>b v. b + v * 0.01)
              (map2 (\<lambda>b p. b * (1 + real_of_int p * 0.2))
                 (foldl (escalar_receita (segmento df5)) (map (\<lambda>x. x * 10) ls)
                    (enumerate 0 lista_segmentos))
                 (num_produtos df5))
              (valor_transacoes_mensais df5)))"
    by (rule calcular_receita_Inr)
  from amostrar_fst(1) [OF ls] have lls: "length ls = nat n" .
  have lr: "length receita = nat n"
    by (simp add: rec onde_length escalar_receita_length l5 lls)
  have lc: "length custo = nat n"
    by (simp add: calcular_custo_Inr(3) [OF u] custo_canal_length l5)
  show "tabela_com_linhas (nat n) t"
    using q(1) lr lc by (simp add: tabela_com_linhas_def t bem_formado_def sel_extend)
  show "id_cliente t = [1..n]"
    using q(2) b0(2) by (simp add: t sel_extend)
qed

lemma gerar_dados_total:
  assumes "0 \<le> n"
  shows "\<exists>t g'. gerar_dados R n estado agora = Inr (t, g')"
proof -
  obtain x1 g1 where a1: "amostrar (np_normal R 42 15) (nat n) (np_seed R 42) = (x1, g1)"
    by (cases "amostrar (np_normal R 42 15) (nat n) (np_seed R 42)")
  obtain x2 g2 where a2: "amostrar (np_exponential R 10000) (nat n) g1 = (x2, g2)"
    by (cases "amostrar (np_exponential R 10000) (nat n) g1")
  obtain x3 g3 where a3: "amostrar (np_choice R [0.65, 0.20, 0.10, 0.05]) (nat n) g2 = (x3, g3)"
    by (cases "amostrar (np_choice R [0.65, 0.20, 0.10, 0.05]) (nat n) g2")
  obtain x4 g4 where a4: "amostrar (np_lognormal R 3.5 1) (nat n) g3 = (x4, g4)"
    by (cases "amostrar (np_lognormal R 3.5 1) (nat n) g3")
  obtain x5 g5 where a5: "amostrar (np_negative_binomial R 3 0.4) (nat n) g4 = (x5, g5)"
    by (cases "amostrar (np_negative_binomial R 3 0.4) (nat n) g4")
  obtain x6 g6 where
    a6: "amostrar (np_choice R [0.45, 0.25, 0.15, 0.10, 0.05]) (nat n) g5 = (x6, g6)"
    by (cases "amostrar (np_choice R [0.45, 0.25, 0.15, 0.10, 0.05]) (nat n) g5")
  obtain x7 g7 where a7: "amostrar (np_beta R 7 3) (nat n) g6 = (x7, g7)"
    by (cases "amostrar (np_beta R 7 3) (nat n) g6")
  obtain x8 g8 where a8: "amostrar (np_choice R [0.85, 0.15]) (nat n) g7 = (x8, g8)"
    by (cases "amostrar (np_choice R [0.85, 0.15]) (nat n) g7")
  obtain x9 g9 where a9: "amostrar (np_exponential R 2000) (nat n) g8 = (x9, g9)"
    by (cases "amostrar (np_exponential R 2000) (nat n) g8")
  obtain x10 g10 where a10: "amostrar (np_poisson R 3) (nat n) g9 = (x10, g10)"
    by (cases "amostrar (np_poisson R 3) (nat n) g9")
  from sortear_colunas_eq [OF assms a1 a2 a3 a4 a5 a6 a7 a8 a9 a10]
  obtain df0 where s: "sortear_colunas R n (np_seed R 42) = Inr (df0, g10)" by blast
  obtain df5 s5 where c: "correlacoes R (df0, g10) = (df5, s5)"
    by (cases "correlacoes R (df0, g10)")
  from calcular_receita_total [OF assms, of R df5 s5] obtain receita s6 where
    r: "calcular_receita R n df5 s5 = Inr (receita, s6)" by blast
  from calcular_custo_total [OF assms, of df5 s6] obtain custo where
    u: "calcular_custo n df5 s6 = Inr (custo, s6)" by blast
  show ?thesis
    by (simp add: gerar_dados_def financeiro_def s c r u entao_def)
qed

subsection \<open>The concrete generator\<close>

lemma amostrar_1: "amostrar d (Suc 0) g = (case d g of (x, g') \<Rightarrow> ([x], g'))"
  by (simp split: prod.splits)

lemma comprimentos:
  "Suc (Suc 0) = 2" "Suc (Suc (Suc (Suc 0))) = 4" "Suc (Suc (Suc (Suc (Suc 0)))) = 5"
  by simp_all

lemma sorteio_teste_1:
  "sortear_colunas gerador_teste 1 42 =
     Inr (\<lparr>id_cliente = [1], idade = [42], saldo_conta = [5497624109577667 / 2199023255552],
            segmento = [''Varejo''], tempo_cliente_meses = [3], num_produtos = [2],
            canal_preferido = [Agencia], satisfacao = [40], cliente_ativo = [False],
            valor_transacoes_mensais = [50003 / 100], freq_contatos_mensais = [1]\<rparr>, 52)"
proof -
  have a: "amostrar (np_normal gerador_teste 42 15) (nat 1) 42 = ([42], 43)"
    "amostrar (np_exponential gerador_teste 10000) (nat 1) 43 = ([250003 / 100], 44)"
    "amostrar (np_choice gerador_teste [0.65, 0.20, 0.10, 0.05]) (nat 1) 44 = ([0], 45)"
    "amostrar (np_lognormal gerador_teste 3.5 1) (nat 1) 45 = ([7 / 2], 46)"
    "amostrar (np_negative_binomial gerador_teste 3 0.4) (nat 1) 46 = ([1], 47)"
    "amostrar (np_choice gerador_teste [0.45, 0.25, 0.15, 0.10, 0.05]) (nat 1) 47 = ([2], 48)"
    "amostrar (np_beta gerador_teste 7 3) (nat 1) 48 = ([2 / 5], 49)"
    "amostrar (np_choice gerador_teste [0.85, 0.15]) (nat 1) 49 = ([1], 50)"
    "amostrar (np_exponential gerador_teste 2000) (nat 1) 50 = ([50003 / 100], 51)"
    "amostrar (np_poisson gerador_teste 3) (nat 1) 51 = ([1], 52)"
    by (simp_all add: amostrar_1 gerador_teste_def comprimentos)
  have "(0::int) \<le> 1" by simp
  from sortear_colunas_eq [OF this a] show ?thesis
    by (simp add: lista_segmentos_def lista_canais_sorteio_def np_clip_def astype_int_def
        np_round64_def float64_def ulp_def expoente_def bits_eval np_round_def rint_def)
qed

lemma correlacoes_teste_1:
  "correlacoes gerador_teste
     (\<lparr>id_cliente = [1], idade = [42], saldo_conta = [5497624109577667 / 2199023255552],
            segmento = [''Varejo''], tempo_cliente_meses = [3], num_produtos = [2],
            canal_preferido = [Agencia], satisfacao = [40], cliente_ativo = [False],
            valor_transacoes_mensais = [50003 / 100], freq_contatos_mensais = [1]\<rparr>, 52) =
     (\<lparr>id_cliente = [1], idade = [62], saldo_conta = [2061609041091625 / 549755813888],
            segmento = [''Varejo''], tempo_cliente_meses = [3], num_produtos = [2],
            canal_preferido = [Agencia], satisfacao = [40], cliente_ativo = [False],
            valor_transacoes_mensais = [650039 / 1000], freq_contatos_mensais = [1]\<rparr>, 53)"
  by (simp add: correlacoes_eq correlacao_saldo_eq correlacao_satisfacao_eq
      correlacao_transacoes_eq correlacao_produtos_eq correlacao_idade_def
      lista_segmentos_def lista_canais_idade_def upto_1_8 onde_def mascara_def soma_def
      amostrar_1 gerador_teste_def np_clip_def astype_int_def
      fmul_def float64_def ulp_def expoente_def bits_eval rint_def
      Agencia_def Central_Telefonica_def Caixa_Eletronico_def)

lemma financeiro_teste_1:
  "financeiro gerador_teste 1
     \<lparr>id_cliente = [1], idade = [62], saldo_conta = [2061609041091625 / 549755813888],
            segmento = [''Varejo''], tempo_cliente_meses = [3], num_produtos = [2],
            canal_preferido = [Agencia], satisfacao = [40], cliente_ativo = [False],
            valor_transacoes_mensais = [650039 / 1000], freq_contatos_mensais = [1]\<rparr> 53 =
     Inr (\<lparr>id_cliente = [1], idade = [62], saldo_conta = [2061609041091625 / 549755813888],
         segmento = [''Varejo''], tempo_cliente_meses = [3], num_produtos = [2],
         canal_preferido = [Agencia], satisfacao = [40], cliente_ativo = [False],
         valor_transacoes_mensais = [650039 / 1000], freq_contatos_mensais = [1],
         receita_mensal = [52], custo_atendimento_mensal = [15],
         rentabilidade_mensal = [37]\<rparr>, 54)"
proof -
  have r: "calcular_receita gerador_teste 1
     \<lparr>id_cliente = [1], idade = [62], saldo_conta = [2061609041091625 / 549755813888],
            segmento = [''Varejo''], tempo_cliente_meses = [3], num_produtos = [2],
            canal_preferido = [Agencia], satisfacao = [40], cliente_ativo = [False],
            valor_transacoes_mensais = [650039 / 1000], freq_contatos_mensais = [1]\<rparr> 53 =
       Inr ([52], 54)"
    by (simp add: calcular_receita_def np_amostra_def entao_def amostrar_1 gerador_teste_def
        lista_segmentos_def onde_def mascara_def np_round_def rint_def)
  have c: "calcular_custo 1
     \<lparr>id_cliente = [1], idade = [62], saldo_conta = [2061609041091625 / 549755813888],
            segmento = [''Varejo''], tempo_cliente_meses = [3], num_produtos = [2],
            canal_preferido = [Agencia], satisfacao = [40], cliente_ativo = [False],
            valor_transacoes_mensais = [650039 / 1000], freq_contatos_mensais = [1]\<rparr> (54::nat) =
       Inr ([15], 54)"
    by (simp add: calcular_custo_def np_zeros_def entao_def custos_base_def onde_def
        mascara_def np_round_def rint_def Agencia_def Central_Telefonica_def
        Caixa_Eletronico_def)
  show ?thesis
    by (simp add: financeiro_def r c entao_def np_round_def rint_def dataframe.defs tabela.defs)
qed

lemma gerar_dados_teste_1:
  "gerar_dados gerador_teste 1 estado agora =
     Inr (\<lparr>id_cliente = [1], idade = [62], saldo_conta = [2061609041091625 / 549755813888],
         segmento = [''Varejo''], tempo_cliente_meses = [3], num_produtos = [2],
         canal_preferido = [Agencia], satisfacao = [40], cliente_ativo = [False],
         valor_transacoes_mensais = [650039 / 1000], freq_contatos_mensais = [1],
         receita_mensal = [52], custo_atendimento_mensal = [15],
         rentabilidade_mensal = [37]\<rparr>, 54)"
proof -
  have "np_seed gerador_teste 42 = 42" by (simp add: gerador_teste_def)
  then show ?thesis
    by (simp add: gerar_dados_def sorteio_teste_1 correlacoes_teste_1 financeiro_teste_1
        entao_def)
qed

lemma gerador_teste_ok: "gerador_ok gerador_teste"
proof -
  have "g mod 11 \<le> 10" for g :: nat
    using mod_less_divisor [of 11 g] by linarith
  then show ?thesis
    by (simp add: gerador_ok_def gerador_teste_def)
qed

lemma gerar_dados_teste:
  "gerar_dados gerador_teste 1 estado agora = Inr (tabela_teste, 54)"
  by (simp add: gerar_dados_teste_1 tabela_teste_def)

subsection \<open>Rows of the initial table and of the folds\<close>

lemma saldo_inicial_lote:
  assumes "sortear_colunas R n g = Inr (df, g')" and "k < nat n"
  shows "saldo_conta df ! k =
           np_round64 2
             (np_clip
                (fst (amostrar (np_exponential R 10000) (nat n)
                        (snd (amostrar (np_normal R 42 15) (nat n) g))) ! k)
                0 500000)"
proof -
  note n0 = sortear_colunas_bem_formado(3) [OF assms(1)]
  note e = sortear_colunas_eq [OF n0 surjective_pairing surjective_pairing surjective_pairing
      surjective_pairing surjective_pairing surjective_pairing surjective_pairing
      surjective_pairing surjective_pairing surjective_pairing, of R g]
  from assms(1) have "saldo_conta df =
      map (np_round64 2) (map (\<lambda>x. np_clip x 0 500000)
        (fst (amostrar (np_exponential R 10000) (nat n)
                (snd (amostrar (np_normal R 42 15) (nat n) g)))))"
    unfolding e by auto
  with assms(2) show ?thesis by (simp add: amostrar_length)
qed

lemma escalar_saldo_nth:
  assumes "k < length col" and "length segs = length col"
    and "i < 4" and "segs ! k = lista_segmentos ! i"
  shows "foldl (\<lambda>col (i, seg). onde (mascara segs seg) (\<lambda>x. fmul (fmul x (real i + 1)) 1.5) col)
           col (enumerate 0 lista_segmentos) ! k = fmul (fmul (col ! k) (real i + 1)) 1.5"
  using menor_4 [OF assms(3)] assms(1,2,4)
  by (auto simp: lista_segmentos_def onde_nth onde_length mascara_length mascara_nth)

lemma custos_base_idade:
  "i < 5 \<Longrightarrow>
   map_of custos_base (lista_canais_idade ! i) = Some ([0.5, 1.0, 3.0, 7.0, 15.0] ! i)"
  by (drule menor_5)
     (auto simp: custos_base_def lista_canais_idade_def Agencia_def Central_Telefonica_def
       Caixa_Eletronico_def)

subsection \<open>The age pass, row by row\<close>

lemma ajustar_idade_eq:
  assumes "amostrar (np_normal R (30 + real i * 8) 5) (soma (mascara (canal_preferido df) canal)) g
           = (zs, g1)"
  shows "ajustar_idade R (df, g) (i, canal) =
         (df\<lparr>idade := atribuir (mascara (canal_preferido df) canal)
                 (map astype_int (map (\<lambda>x. np_clip x 18 85) zs)) (idade df)\<rparr>, g1)"
  using assms by (simp add: Let_def)

lemma ajustar_idade_nth:
  assumes a: "ajustar_idade R (df, g) (i, canal) = (df', g')"
    and l: "length (canal_preferido df) = length (idade df)"
    and k: "k < length (idade df)"
  shows "canal_preferido df ! k = canal \<Longrightarrow>
           \<exists>s. idade df' ! k =
             astype_int (np_clip (fst (np_normal R (30 + real i * 8) 5 s)) 18 85)"
    and "canal_preferido df ! k \<noteq> canal \<Longrightarrow> idade df' ! k = idade df ! k"
proof -
  let ?m = "mascara (canal_preferido df) canal"
  obtain zs g1 where z: "amostrar (np_normal R (30 + real i * 8) 5) (soma ?m) g = (zs, g1)"
    by (cases "amostrar (np_normal R (30 + real i * 8) 5) (soma ?m) g")
  note az = amostrar_fst [OF z]
  let ?vs = "map astype_int (map (\<lambda>x. np_clip x 18 85) zs)"
  from a ajustar_idade_eq [OF z] have df': "idade df' = atribuir ?m ?vs (idade df)"
    by simp
  have lm: "length ?m = length (idade df)" by (simp add: mascara_length l)
  have lv: "soma ?m \<le> length ?vs" by (simp add: az(1))
  have n: "idade df' ! k = (if ?m ! k then ?vs ! soma (take k ?m) else idade df ! k)"
    unfolding df' using lm lv k by (rule atribuir_nth)
  have mk: "?m ! k = (canal_preferido df ! k = canal)"
    using k l by (simp add: mascara_nth)
  show "idade df' ! k = idade df ! k" if "canal_preferido df ! k \<noteq> canal"
    using n mk that by simp
  show "\<exists>s. idade df' ! k =
             astype_int (np_clip (fst (np_normal R (30 + real i * 8) 5 s)) 18 85)"
    if "canal_preferido df ! k = canal"
  proof -
    from that mk have t: "?m ! k" by simp
    with k lm have j: "soma (take k ?m) < length zs"
      using soma_take_less [of k ?m] by (simp add: az(1))
    then have "zs ! soma (take k ?m) \<in> set zs" by simp
    with az(2) obtain s where "zs ! soma (take k ?m) = fst (np_normal R (30 + real i * 8) 5 s)"
      by blast
    with n t j show ?thesis by auto
  qed
qed

lemma ajustar_idade_lote:
  assumes a: "ajustar_idade R (df, g) (i, canal) = (df', g')"
    and l: "length (canal_preferido df) = length (idade df)"
    and k: "k < length (idade df)"
    and c: "canal_preferido df ! k = canal"
  shows "\<exists>s zs s2.
           amostrar (np_normal R (30 + real i * 8) 5)
             (soma (mascara (canal_preferido df) canal)) s = (zs, s2) \<and>
           idade df' ! k =
             astype_int
               (np_clip (zs ! soma (take k (mascara (canal_preferido df) canal))) 18 85)"
proof -
  let ?m = "mascara (canal_preferido df) canal"
  obtain zs g1 where z: "amostrar (np_normal R (30 + real i * 8) 5) (soma ?m) g = (zs, g1)"
    by (cases "amostrar (np_normal R (30 + real i * 8) 5) (soma ?m) g")
  note az = amostrar_fst [OF z]
  let ?vs = "map astype_int (map (\<lambda>x. np_clip x 18 85) zs)"
  from a ajustar_idade_eq [OF z] have df': "idade df' = atribuir ?m ?vs (idade df)"
    by simp
  have lm: "length ?m = length (idade df)" by (simp add: mascara_length l)
  have lv: "soma ?m \<le> length ?vs" by (simp add: az(1))
  have n: "idade df' ! k = (if ?m ! k then ?vs ! soma (take k ?m) else idade df ! k)"
    unfolding df' using lm lv k by (rule atribuir_nth)
  have t: "?m ! k" using k l c by (simp add: mascara_nth)
  with k lm have j: "soma (take k ?m) < length zs"
    using soma_take_less [of k ?m] by (simp add: az(1))
  with n t have "idade df' ! k = astype_int (np_clip (zs ! soma (take k ?m)) 18 85)"
    by simp
  with z show ?thesis by blast
qed

lemma foldl_ajustar_idade_lote:
  assumes "distinct (map snd L)"
    and "length (canal_preferido df) = length (idade df)"
    and "k < length (idade df)"
    and "foldl (ajustar_idade R) (df, g) L = (df', g')"
    and "(i, c) \<in> set L" and "canal_preferido df ! k = c"
  shows "\<exists>s zs s2.
           amostrar (np_normal R (30 + real i * 8) 5)
             (soma (mascara (canal_preferido df) c)) s = (zs, s2) \<and>
           idade df' ! k =
             astype_int (np_clip (zs ! soma (take k (mascara (canal_preferido df) c))) 18 85)"
  using assms(1,4,5)
proof (induction L arbitrary: df' g' rule: rev_induct)
  case Nil
  then show ?case by simp
next
  case (snoc x L)
  obtain j cj where x: "x = (j, cj)" by (cases x)
  obtain d1 g1 where f1: "foldl (ajustar_idade R) (df, g) L = (d1, g1)"
    by (cases "foldl (ajustar_idade R) (df, g) L")
  from snoc.prems(1) have dL: "distinct (map snd L)" and nj: "cj \<notin> snd ` set L"
    by (auto simp: x)
  from foldl_ajustar_idade_forma [OF f1] obtain ys where
    ys: "d1 = df\<lparr>idade := ys\<rparr>" "length ys = length (idade df)" by blast
  from snoc.prems(2) f1 have st: "ajustar_idade R (d1, g1) (j, cj) = (df', g')"
    by (simp add: x)
  have l1: "length (canal_preferido d1) = length (idade d1)" "k < length (idade d1)"
    "canal_preferido d1 = canal_preferido df"
    using ys assms(2,3) by simp_all
  show ?case
  proof (cases "(i, c) = (j, cj)")
    case True
    with ajustar_idade_lote [OF st l1(1,2)] assms(6) l1(3) show ?thesis by simp
  next
    case False
    with snoc.prems(3) have m: "(i, c) \<in> set L" by (auto simp: x)
    then have "c \<in> snd ` set L" by force
    with nj have "c \<noteq> cj" by auto
    with ajustar_idade_nth(2) [OF st l1(1,2)] assms(6) l1(3)
    have "idade df' ! k = idade d1 ! k" by simp
    with snoc.IH [OF dL f1 m] show ?thesis by simp
  qed
qed

lemma atribuir_concorda:
  assumes "length m = length xs" and "length ys = length xs" and "soma m \<le> length vs"
    and "k < length xs" and "m ! k \<or> xs ! k = ys ! k"
  shows "atribuir m vs xs ! k = atribuir m vs ys ! k"
  using assms by (auto simp: atribuir_nth)

lemma foldl_ajustar_idade_indep:
  assumes "length (canal_preferido df) = length (idade df)"
    and "length xs = length (idade df)"
    and "foldl (ajustar_idade R) (df, g) L = (df', g')"
    and "foldl (ajustar_idade R) (df\<lparr>idade := xs\<rparr>, g) L = (df'', g'')"
  shows "g'' = g' \<and>
         (\<forall>k<length (idade df). canal_preferido df ! k \<in> snd ` set L \<longrightarrow>
            idade df'' ! k = idade df' ! k)"
  using assms(3,4)
proof (induction L arbitrary: df' g' df'' g'' rule: rev_induct)
  case Nil
  then show ?case by simp
next
  case (snoc x L)
  obtain j cj where x: "x = (j, cj)" by (cases x)
  obtain d1 g1 where f1: "foldl (ajustar_idade R) (df, g) L = (d1, g1)"
    by (cases "foldl (ajustar_idade R) (df, g) L")
  obtain d2 g2 where f2: "foldl (ajustar_idade R) (df\<lparr>idade := xs\<rparr>, g) L = (d2, g2)"
    by (cases "foldl (ajustar_idade R) (df\<lparr>idade := xs\<rparr>, g) L")
  note ih = snoc.IH [OF f1 f2]
  from foldl_ajustar_idade_forma [OF f1] obtain ys where
    ys: "d1 = df\<lparr>idade := ys\<rparr>" "length ys = length (idade df)" by blast
  from foldl_ajustar_idade_forma [OF f2] assms(2) obtain ys' where
    ys': "d2 = df\<lparr>idade := ys'\<rparr>" "length ys' = length (idade df)" by auto
  let ?m = "mascara (canal_preferido df) cj"
  obtain zs g3 where z: "amostrar (np_normal R (30 + real j * 8) 5) (soma ?m) g1 = (zs, g3)"
    by (cases "amostrar (np_normal R (30 + real j * 8) 5) (soma ?m) g1")
  let ?vs = "map astype_int (map (\<lambda>x. np_clip x 18 85) zs)"
  have s1: "ajustar_idade R (d1, g1) (j, cj) = (d1\<lparr>idade := atribuir ?m ?vs ys\<rparr>, g3)"
    using ajustar_idade_eq [of R j d1 cj g1 zs g3] z by (simp add: ys)
  have s2: "ajustar_idade R (d2, g2) (j, cj) = (d2\<lparr>idade := atribuir ?m ?vs ys'\<rparr>, g3)"
    using ajustar_idade_eq [of R j d2 cj g2 zs g3] z ih by (simp add: ys')
  from snoc.prems(1) f1 s1 have r1: "df' = d1\<lparr>idade := atribuir ?m ?vs ys\<rparr>" "g' = g3"
    by (simp_all add: x)
  from snoc.prems(2) f2 s2 have r2: "df'' = d2\<lparr>idade := atribuir ?m ?vs ys'\<rparr>" "g'' = g3"
    by (simp_all add: x)
  have lm: "length ?m = length ys" by (simp add: mascara_length assms(1) ys(2))
  have lv: "soma ?m \<le> length ?vs" using amostrar_fst(1) [OF z] by simp
  have "idade df'' ! k = idade df' ! k"
    if k: "k < length (idade df)" and c: "canal_preferido df ! k \<in> snd ` set (L @ [x])" for k
  proof -
    have "?m ! k \<or> ys ! k = ys' ! k"
    proof (cases "canal_preferido df ! k = cj")
      case True
      with k assms(1) show ?thesis by (simp add: mascara_nth)
    next
      case False
      with c have "canal_preferido df ! k \<in> snd ` set L" by (auto simp: x)
      with ih k have "idade d2 ! k = idade d1 ! k" by simp
      then show ?thesis by (simp add: ys ys')
    qed
    with atribuir_concorda [of ?m ys ys' ?vs k] lm lv ys ys' k show ?thesis
      by (simp add: r1 r2)
  qed
  with r1 r2 show ?case by simp
qed

lemma canais_distintos: "distinct lista_canais_idade"
  by (simp add: lista_canais_idade_def Agencia_def Central_Telefonica_def Caixa_Eletronico_def)

lemma canal_sorteio_idade:
  "j < 5 \<Longrightarrow> lista_canais_sorteio ! j = lista_canais_idade ! ([0, 1, 4, 3, 2] ! j)"
  by (drule menor_5) (auto simp: lista_canais_sorteio_def lista_canais_idade_def)

lemma perm_menor_5: "j < 5 \<Longrightarrow> [0, 1, 4, 3, 2::nat] ! j < 5"
  by (drule menor_5) auto

lemma media_canal: "i < 5 \<Longrightarrow> 30 + real i * 8 = [30, 38, 46, 54, 62] ! i"
  by (drule menor_5) auto

lemma correlacao_idade_indep:
  assumes l: "length (canal_preferido df) = length (idade df)"
    and x: "length xs = length (idade df)"
    and c: "\<forall>k<length (idade df). canal_preferido df ! k \<in> set lista_canais_idade"
  shows "correlacao_idade R (df\<lparr>idade := xs\<rparr>, g) = correlacao_idade R (df, g)"
proof -
  let ?L = "enumerate 0 lista_canais_idade"
  obtain d1 g1 where f1: "foldl (ajustar_idade R) (df, g) ?L = (d1, g1)"
    by (cases "foldl (ajustar_idade R) (df, g) ?L")
  obtain d2 g2 where f2: "foldl (ajustar_idade R) (df\<lparr>idade := xs\<rparr>, g) ?L = (d2, g2)"
    by (cases "foldl (ajustar_idade R) (df\<lparr>idade := xs\<rparr>, g) ?L")
  from foldl_ajustar_idade_forma [OF f1] obtain ys where
    ys: "d1 = df\<lparr>idade := ys\<rparr>" "length ys = length (idade df)" by blast
  from foldl_ajustar_idade_forma [OF f2] x obtain ys' where
    ys': "d2 = df\<lparr>idade := ys'\<rparr>" "length ys' = length (idade df)" by auto
  have s: "snd ` set ?L = set lista_canais_idade"
    by (metis map_snd_enumerate set_map)
  from foldl_ajustar_idade_indep [OF l x f1 f2] c
  have "g2 = g1" and "\<forall>k<length (idade df). ys' ! k = ys ! k"
    by (simp_all add: s ys ys')
  with ys ys' have "ys' = ys" by (simp add: nth_equalityI)
  with \<open>g2 = g1\<close> f1 f2 ys ys' show ?thesis
    by (simp add: correlacao_idade_def)
qed

lemma correlacoes_indep:
  assumes "bem_formado n df" and "length xs = n"
    and "\<forall>k<n. canal_preferido df ! k \<in> set lista_canais_idade"
  shows "correlacoes R (df\<lparr>idade := xs\<rparr>, g) = correlacoes R (df, g)"
proof -
  let ?d3 = "correlacao_transacoes (correlacao_satisfacao (correlacao_saldo df))"
  have e: "correlacao_transacoes (correlacao_satisfacao (correlacao_saldo (df\<lparr>idade := xs\<rparr>)))
           = ?d3\<lparr>idade := xs\<rparr>"
    by (simp add: correlacao_transacoes_eq correlacao_satisfacao_eq correlacao_saldo_eq)
  have b3: "bem_formado n ?d3"
    using assms(1) by (intro correlacao_transacoes_bem_formado
        correlacao_satisfacao_bem_formado correlacao_saldo_bem_formado)
  have c3: "canal_preferido ?d3 = canal_preferido df"
    by (simp add: correlacao_transacoes_eq correlacao_satisfacao_eq correlacao_saldo_eq)
  have "correlacao_idade R (?d3\<lparr>idade := xs\<rparr>, g) = correlacao_idade R (?d3, g)"
    using b3 assms(2,3) c3 by (intro correlacao_idade_indep) (simp_all add: bem_formado_def)
  then show ?thesis by (simp add: correlacoes_eq e)
qed

subsection \<open>The concrete generator on two records\<close>

lemma amostrar_2:
  "amostrar d 2 g = (case d g of (x, g1) \<Rightarrow> case d g1 of (y, g2) \<Rightarrow> ([x, y], g2))"
  by (simp add: numeral_2_eq_2 split: prod.splits)

lemma upto_1_2: "[1..2] = [1, 2::int]"
  by code_simp

lemma sorteio_teste_2:
  "sortear_colunas gerador_teste 2 42 =
     Inr (\<lparr>id_cliente = [1, 2], idade = [42, 57], saldo_conta = [5497591124228833 / 1099511627776, 8246370193668833 / 1099511627776],
            segmento = [''Alta Renda'', ''Private''], tempo_cliente_meses = [3, 3],
            num_produtos = [6, 7], canal_preferido = [Agencia, Central_Telefonica],
            satisfacao = [100, 0], cliente_ativo = [True, False],
            valor_transacoes_mensais = [100003 / 100, 150003 / 100],
            freq_contatos_mensais = [0, 1]\<rparr>, 62)"
proof -
  have a: "amostrar (np_normal gerador_teste 42 15) (nat 2) 42 = ([42, 57], 44)"
    "amostrar (np_exponential gerador_teste 10000) (nat 2) 44 = ([500003 / 100, 750003 / 100], 46)"
    "amostrar (np_choice gerador_teste [0.65, 0.20, 0.10, 0.05]) (nat 2) 46 = ([2, 3], 48)"
    "amostrar (np_lognormal gerador_teste 3.5 1) (nat 2) 48 = ([7 / 2, 29 / 8], 50)"
    "amostrar (np_negative_binomial gerador_teste 3 0.4) (nat 2) 50 = ([5, 6], 52)"
    "amostrar (np_choice gerador_teste [0.45, 0.25, 0.15, 0.10, 0.05]) (nat 2) 52 = ([2, 3], 54)"
    "amostrar (np_beta gerador_teste 7 3) (nat 2) 54 = ([1, 0], 56)"
    "amostrar (np_choice gerador_teste [0.85, 0.15]) (nat 2) 56 = ([0, 1], 58)"
    "amostrar (np_exponential gerador_teste 2000) (nat 2) 58 = ([100003 / 100, 150003 / 100], 60)"
    "amostrar (np_poisson gerador_teste 3) (nat 2) 60 = ([0, 1], 62)"
    by (simp_all add: amostrar_2 gerador_teste_def comprimentos)
  have "(0::int) \<le> 2" by simp
  from sortear_colunas_eq [OF this a] show ?thesis
    by (simp add: lista_segmentos_def lista_canais_sorteio_def np_clip_def astype_int_def
        np_round64_def float64_def ulp_def expoente_def bits_eval np_round_def rint_def upto_1_2)
qed

lemma correlacoes_teste_2:
  "correlacoes gerador_teste
     (\<lparr>id_cliente = [1, 2], idade = [42, 57], saldo_conta = [5497591124228833 / 1099511627776, 8246370193668833 / 1099511627776],
            segmento = [''Alta Renda'', ''Private''], tempo_cliente_meses = [3, 3],
            num_produtos = [6, 7], canal_preferido = [Agencia, Central_Telefonica],
            satisfacao = [100, 0], cliente_ativo = [True, False],
            valor_transacoes_mensais = [100003 / 100, 150003 / 100],
            freq_contatos_mensais = [0, 1]\<rparr>, 62) =
     (\<lparr>id_cliente = [1, 2], idade = [67, 54], saldo_conta = [3092395007378719 / 137438953472, 6184777645251625 / 137438953472],
      segmento = [''Alta Renda'', ''Private''], tempo_cliente_meses = [3, 3],
      num_produtos = [6, 7], canal_preferido = [Agencia, Central_Telefonica],
      satisfacao = [100, 0], cliente_ativo = [True, False],
      valor_transacoes_mensais = [1900057 / 1000, 6150123 / 2000],
      freq_contatos_mensais = [0, 1]\<rparr>, 64)"
  by (simp add: correlacoes_eq correlacao_saldo_eq correlacao_satisfacao_eq
      correlacao_transacoes_eq correlacao_produtos_eq correlacao_idade_def
      lista_segmentos_def lista_canais_idade_def upto_1_8 onde_def mascara_def soma_def
      amostrar_1 gerador_teste_def np_clip_def astype_int_def
      fmul_def float64_def ulp_def expoente_def bits_eval rint_def
      Agencia_def Central_Telefonica_def Caixa_Eletronico_def)

lemma financeiro_teste_2:
  "financeiro gerador_teste 2
     \<lparr>id_cliente = [1, 2], idade = [67, 54], saldo_conta = [3092395007378719 / 137438953472, 6184777645251625 / 137438953472],
      segmento = [''Alta Renda'', ''Private''], tempo_cliente_meses = [3, 3],
      num_produtos = [6, 7], canal_preferido = [Agencia, Central_Telefonica],
      satisfacao = [100, 0], cliente_ativo = [True, False],
      valor_transacoes_mensais = [1900057 / 1000, 6150123 / 2000],
      freq_contatos_mensais = [0, 1]\<rparr> 64 = Inr (tabela_teste_2, 66)"
proof -
  have r: "calcular_receita gerador_teste 2
     \<lparr>id_cliente = [1, 2], idade = [67, 54], saldo_conta = [3092395007378719 / 137438953472, 6184777645251625 / 137438953472],
      segmento = [''Alta Renda'', ''Private''], tempo_cliente_meses = [3, 3],
      num_produtos = [6, 7], canal_preferido = [Agencia, Central_Telefonica],
      satisfacao = [100, 0], cliente_ativo = [True, False],
      valor_transacoes_mensais = [1900057 / 1000, 6150123 / 2000],
      freq_contatos_mensais = [0, 1]\<rparr> 64 = Inr ([939 / 4, 903 / 4], 66)"
    by (simp add: calcular_receita_def np_amostra_def entao_def amostrar_2 gerador_teste_def
        lista_segmentos_def onde_def mascara_def np_round_def rint_def)
  have c: "calcular_custo 2
     \<lparr>id_cliente = [1, 2], idade = [67, 54], saldo_conta = [3092395007378719 / 137438953472, 6184777645251625 / 137438953472],
      segmento = [''Alta Renda'', ''Private''], tempo_cliente_meses = [3, 3],
      num_produtos = [6, 7], canal_preferido = [Agencia, Central_Telefonica],
      satisfacao = [100, 0], cliente_ativo = [True, False],
      valor_transacoes_mensais = [1900057 / 1000, 6150123 / 2000],
      freq_contatos_mensais = [0, 1]\<rparr> (66::nat) = Inr ([0, 7], 66)"
    by (simp add: calcular_custo_def np_zeros_def entao_def custos_base_def onde_def
        mascara_def np_round_def rint_def Agencia_def Central_Telefonica_def
        Caixa_Eletronico_def numeral_2_eq_2)
  show ?thesis
    by (simp add: financeiro_def r c entao_def np_round_def rint_def dataframe.defs tabela.defs
        tabela_teste_2_def)
qed

lemma gerar_dados_teste_2:
  "gerar_dados gerador_teste 2 estado agora = Inr (tabela_teste_2, 66)"
proof -
  have "np_seed gerador_teste 42 = 42" by (simp add: gerador_teste_def)
  then show ?thesis
    by (simp add: gerar_dados_def sorteio_teste_2 correlacoes_teste_2 financeiro_teste_2
        entao_def)
qed

lemma sorteio_teste:
  "sortear_colunas gerador_teste 1 (np_seed gerador_teste 42) = Inr (inicial_teste, 52)"
proof -
  have "np_seed gerador_teste 42 = 42" by (simp add: gerador_teste_def)
  then show ?thesis by (simp add: sorteio_teste_1 inicial_teste_def)
qed

lemma saldo_fora_da_grade:
  "np_round64 2 (saldo_conta tabela_teste ! 0) \<noteq> saldo_conta tabela_teste ! 0"
  by (simp add: tabela_teste_def np_round64_def float64_def ulp_def expoente_def bits_eval
      rint_def)

lemma sorteio_teste_dois:
  "sortear_colunas gerador_teste 2 (np_seed gerador_teste 42) = Inr (inicial_teste_2, 62)"
proof -
  have "np_seed gerador_teste 42 = 42" by (simp add: gerador_teste_def)
  then show ?thesis by (simp add: sorteio_teste_2 inicial_teste_2_def)
qed

lemma sorteio_saldo_teste_2:
  "fst (amostrar (np_exponential gerador_teste 10000) (nat 2)
          (snd (amostrar (np_normal gerador_teste 42 15) (nat 2) (np_seed gerador_teste 42))))
   = [500003 / 100, 750003 / 100]"
  by (simp add: amostrar_2 gerador_teste_def)

lemma segmentos_teste_2:
  "segmento tabela_teste_2 ! 0 = lista_segmentos ! 2"
  "segmento tabela_teste_2 ! 1 = lista_segmentos ! 3"
  by (simp_all add: tabela_teste_2_def lista_segmentos_def)

lemma segmentos_distintos:
  "i < 4 \<Longrightarrow> j < 4 \<Longrightarrow> lista_segmentos ! i = lista_segmentos ! j \<Longrightarrow> i = j"
  by (drule menor_4, drule menor_4) (auto simp: lista_segmentos_def)

section \<open>The claims\<close>

text \<open>
  C1 (determinism). Two calls with the same record count return the same table, field by
  field, and leave the generator in the same state, whatever the state of the global
  generator and the reading of the clock were at each call: line 68 replaces the state
  by the one of seed 42, and the clock reading is never used.
\<close>

theorem gerar_dados_deterministico:
  "gerar_dados R n estado1 agora1 = gerar_dados R n estado2 agora2"
  by (simp add: gerar_dados_def)

text \<open>
  C2 as stated fails at a record count of 0: the function has no argument check, every
  draw of size 0 succeeds, and an empty table is returned.
\<close>

theorem gerar_dados_zero_counterexample:
  "\<not> isl (gerar_dados gerador_teste 0 (7::nat) ())"
  by (simp add: gerar_dados_zero)

text \<open>
  C2 (amended). A negative record count is refused by the first draw of numpy
  (\<open>ValueError\<close>): the generator is still in the state of seed 42, so no variate has
  been drawn, and no table is produced. A record count of 0 is accepted and yields the
  empty table, again without drawing.
\<close>

theorem gerar_dados_tamanho_invalido:
  "(n < 0 \<longrightarrow> gerar_dados R n estado agora = Inl (ValueError, np_seed R 42)) \<and>
   gerar_dados R 0 estado agora =
     Inr (\<lparr>id_cliente = [], idade = [], saldo_conta = [], segmento = [],
            tempo_cliente_meses = [], num_produtos = [], canal_preferido = [],
            satisfacao = [], cliente_ativo = [], valor_transacoes_mensais = [],
            freq_contatos_mensais = [], receita_mensal = [],
            custo_atendimento_mensal = [], rentabilidade_mensal = []\<rparr>, np_seed R 42)"
  using gerar_dados_neg [of n R estado agora] gerar_dados_zero [of R estado agora] by simp

theorem gerar_dados_tamanho_invalido_witness:
  "(-1::int) < 0 \<and> gerar_dados gerador_teste (-1) (7::nat) () = Inl (ValueError, 42)"
  using gerar_dados_tamanho_invalido [of "-1" gerador_teste 7 "()"]
  by (simp add: gerador_teste_def)



text \<open>
  C6 (cardinality). For every record count \<open>n > 0\<close> the generator returns a table:
  each of its columns has exactly \<open>n\<close> entries, and the column \<open>id_cliente\<close> is the
  list \<open>1, 2, \<dots>, n\<close>, which has no duplicates.
\<close>

theorem gerar_dados_cardinalidade:
  assumes "0 < n"
  shows "\<exists>t g'. gerar_dados R n estado agora = Inr (t, g') \<and>
           tabela_com_linhas (nat n) t \<and> id_cliente t = [1..n] \<and> distinct (id_cliente t)"
proof -
  from assms have "0 \<le> n" by simp
  from gerar_dados_total [OF this, of R estado agora] obtain t g' where
    g: "gerar_dados R n estado agora = Inr (t, g')" by blast
  from gerar_dados_linhas [OF g] show ?thesis using g by auto
qed

theorem gerar_dados_cardinalidade_witness:
  "(0::int) < 1 \<and>
   (\<exists>t g'. gerar_dados gerador_teste 1 (7::nat) () = Inr (t, g') \<and>
      tabela_com_linhas (nat 1) t \<and> id_cliente t = [1..1] \<and> distinct (id_cliente t))"
  using gerar_dados_cardinalidade [of 1 gerador_teste 7 "()"] by simp

text \<open>
  C3 (bounds). In the returned table every age lies in 18..85, every balance is at least
  0, every tenure lies in 1..480, every product count in 1..8, every satisfaction score
  in 0..100 and every contact frequency in 0..30. The same holds for the initial table
  and for the table after each of the five correlation passes (\<open>apos_passos R k\<close> is
  the table after the first \<open>k\<close> passes; a pass includes its own re-clipping).
\<close>

theorem gerar_dados_limites:
  assumes "gerar_dados R n estado agora = Inr (t, g')" and "gerador_ok R"
  shows "limites t \<and>
         (\<forall>df0 g0 k. sortear_colunas R n (np_seed R 42) = Inr (df0, g0) \<longrightarrow>
            limites (fst (apos_passos R k (df0, g0))))"
proof -
  from assms(1) obtain df0 g0 df5 g5 receita custo where
    s: "sortear_colunas R n (np_seed R 42) = Inr (df0, g0)"
    and c: "correlacoes R (df0, g0) = (df5, g5)"
    and t: "t = dataframe.extend df5
           (tabela.fields receita custo
              (map (np_round 2) (map2 (\<lambda>r c. r - c) receita custo)))"
    by (rule gerar_dados_Inr)
  have inv: "limites (fst (apos_passos R k (df0, g0)))" for k
    using apos_passos_inv [OF sortear_colunas_bem_formado(1) [OF s]
        sortear_colunas_limites [OF s assms(2)], where R = R and k = k and g = g0] by simp
  from inv [of 5] c have "limites df5" by (simp add: correlacoes_def)
  then have "limites t" by (simp add: t limites_def sel_extend)
  with inv s show ?thesis by simp
qed

theorem gerar_dados_limites_witness:
  "gerar_dados gerador_teste 1 (7::nat) () = Inr (tabela_teste, 54) \<and>
   gerador_ok gerador_teste \<and> limites tabela_teste \<and>
   sortear_colunas gerador_teste 1 (np_seed gerador_teste 42) = Inr (inicial_teste, 52) \<and>
   limites (fst (apos_passos gerador_teste 2 (inicial_teste, 52)))"
proof -
  have g: "gerar_dados gerador_teste 1 (7::nat) () = Inr (tabela_teste, 54)"
    by (rule gerar_dados_teste)
  from gerar_dados_limites [OF g gerador_teste_ok] sorteio_teste
  have "limites tabela_teste" "limites (fst (apos_passos gerador_teste 2 (inicial_teste, 52)))"
    by blast+
  with g gerador_teste_ok sorteio_teste show ?thesis by blast
qed

text \<open>
  C5 (cost table). The channel of every row is one of App, Internet Banking, Caixa
  Eletronico, Central Telefonica, Agencia; \<open>custos_base\<close> gives it the unit cost 0.5,
  1.0, 3.0, 7.0, 15.0 respectively, and the service cost of the row is that unit cost
  times the contact frequency of the row, rounded to 2 decimals.
\<close>

theorem gerar_dados_custo:
  assumes "gerar_dados R n estado agora = Inr (t, g')" and "gerador_ok R" and "k < nat n"
  shows "\<exists>i<5. canal_preferido t ! k = lista_canais_idade ! i \<and>
           map_of custos_base (canal_preferido t ! k) = Some ([0.5, 1.0, 3.0, 7.0, 15.0] ! i) \<and>
           custo_atendimento_mensal t ! k =
             np_round 2
               ([0.5, 1.0, 3.0, 7.0, 15.0] ! i * real_of_int (freq_contatos_mensais t ! k))"
proof -
  from assms(1) obtain df0 g0 df5 g5 receita g6 custo where
    s: "sortear_colunas R n (np_seed R 42) = Inr (df0, g0)"
    and c: "correlacoes R (df0, g0) = (df5, g5)"
    and u: "calcular_custo n df5 g6 = Inr (custo, g')"
    and t: "t = dataframe.extend df5
           (tabela.fields receita custo
              (map (np_round 2) (map2 (\<lambda>r c. r - c) receita custo)))"
    by (rule gerar_dados_Inr)
  note q = correlacoes_quadro [OF c sortear_colunas_bem_formado(1) [OF s]]
  from q(1) have l: "length (canal_preferido df5) = nat n"
    "length (freq_contatos_mensais df5) = nat n"
    by (simp_all add: bem_formado_def)
  from canal_na_lista [OF s assms(2,3)] obtain j where
    j: "j < 5" "canal_preferido df0 ! k = lista_canais_sorteio ! j" by blast
  define i where "i = [0, 1, 4, 3, 2::nat] ! j"
  from perm_menor_5 [OF j(1)] have i5: "i < 5" by (simp add: i_def)
  from canal_sorteio_idade [OF j(1)] j(2) q(4) have
    ci: "canal_preferido df5 ! k = lista_canais_idade ! i" by (simp add: i_def)
  note cc = custos_base_idade [OF i5]
  have "custo ! k = np_round 2
          (foldl (custo_canal (canal_preferido df5)) (replicate (nat n) 0) custos_base ! k *
           real_of_int (freq_contatos_mensais df5 ! k))"
    using assms(3) l by (simp add: calcular_custo_Inr(3) [OF u] custo_canal_length)
  also have "foldl (custo_canal (canal_preferido df5)) (replicate (nat n) 0) custos_base ! k =
      [0.5, 1.0, 3.0, 7.0, 15.0] ! i"
    using custo_canal_nth [OF assms(3) l(1)] cc ci by simp
  finally have "custo ! k =
      np_round 2 ([0.5, 1.0, 3.0, 7.0, 15.0] ! i * real_of_int (freq_contatos_mensais df5 ! k))" .
  with cc ci i5 show ?thesis by (auto simp: t sel_extend)
qed

theorem gerar_dados_custo_witness:
  "gerar_dados gerador_teste 1 (7::nat) () = Inr (tabela_teste, 54) \<and>
   gerador_ok gerador_teste \<and> (0::nat) < nat 1 \<and>
   (\<exists>i<5. canal_preferido tabela_teste ! 0 = lista_canais_idade ! i \<and>
      map_of custos_base (canal_preferido tabela_teste ! 0) =
        Some ([0.5, 1.0, 3.0, 7.0, 15.0] ! i) \<and>
      custo_atendimento_mensal tabela_teste ! 0 =
        np_round 2
          ([0.5, 1.0, 3.0, 7.0, 15.0] ! i *
           real_of_int (freq_contatos_mensais tabela_teste ! 0)))"
proof -
  have g: "gerar_dados gerador_teste 1 (7::nat) () = Inr (tabela_teste, 54)"
    by (rule gerar_dados_teste)
  have k: "(0::nat) < nat 1" by simp
  from gerar_dados_custo [OF g gerador_teste_ok k] g gerador_teste_ok k
  show ?thesis by blast
qed



text \<open>
  C8 (age by channel). For the channel of a row, a batch of normal variates with standard
  deviation 5 and the mean of the channel (App 30, Internet Banking 38, Caixa Eletronico
  46, Central Telefonica 54, Agencia 62) is drawn, one variate per row of the channel.
  The age of the row is the variate at the rank of the row among the rows of its
  channel, clipped to 18..85 and truncated.
  The ages drawn first do not reach the output: with any other column of ages in the
  initial table, the rest of the function returns the same table.
\<close>

theorem gerar_dados_idade:
  assumes "gerar_dados R n estado agora = Inr (t, g')" and "gerador_ok R" and "k < nat n"
  shows "(\<exists>i s lote s2. i < 5 \<and> canal_preferido t ! k = lista_canais_idade ! i \<and>
            amostrar (np_normal R ([30, 38, 46, 54, 62] ! i) 5)
              (soma (mascara (canal_preferido t) (lista_canais_idade ! i))) s = (lote, s2) \<and>
            idade t ! k =
              astype_int
                (np_clip
                   (lote ! soma (take k (mascara (canal_preferido t) (lista_canais_idade ! i))))
                   18 85)) \<and>
         (\<forall>df0 g0 xs. sortear_colunas R n (np_seed R 42) = Inr (df0, g0) \<longrightarrow>
            length xs = nat n \<longrightarrow>
            (case correlacoes R (df0\<lparr>idade := xs\<rparr>, g0) of
               (df, g) \<Rightarrow> financeiro R n df g) = Inr (t, g'))"
proof -
  from assms(1) obtain df0 g0 df5 g5 receita g6 custo where
    s: "sortear_colunas R n (np_seed R 42) = Inr (df0, g0)"
    and c: "correlacoes R (df0, g0) = (df5, g5)"
    and r: "calcular_receita R n df5 g5 = Inr (receita, g6)"
    and u: "calcular_custo n df5 g6 = Inr (custo, g')"
    and t: "t = dataframe.extend df5
           (tabela.fields receita custo
              (map (np_round 2) (map2 (\<lambda>r c. r - c) receita custo)))"
    by (rule gerar_dados_Inr)
  note b0 = sortear_colunas_bem_formado(1) [OF s]
  note q = correlacoes_quadro [OF c b0]
  have can: "\<exists>i<5. canal_preferido df0 ! m = lista_canais_idade ! i" if "m < nat n" for m
  proof -
    from canal_na_lista [OF s assms(2) that] obtain j where
      j: "j < 5" "canal_preferido df0 ! m = lista_canais_sorteio ! j" by blast
    with canal_sorteio_idade [OF j(1)] perm_menor_5 [OF j(1)] show ?thesis by auto
  qed
  have len5: "length lista_canais_idade = 5"
    by (simp add: lista_canais_idade_def)
  have fin: "financeiro R n df5 g5 = Inr (t, g')"
    by (simp add: financeiro_def r u t entao_def)
  have part2: "(case correlacoes R (df0\<lparr>idade := xs\<rparr>, g0) of
               (df, g) \<Rightarrow> financeiro R n df g) = Inr (t, g')" if "length xs = nat n" for xs
  proof -
    have "\<forall>m<nat n. canal_preferido df0 ! m \<in> set lista_canais_idade"
    proof (intro allI impI)
      fix m assume "m < nat n"
      from can [OF this] obtain i where "i < 5" "canal_preferido df0 ! m = lista_canais_idade ! i"
        by blast
      with len5 show "canal_preferido df0 ! m \<in> set lista_canais_idade"
        by (metis nth_mem)
    qed
    from correlacoes_indep [OF b0 that this, where R = R and g = g0] c fin
    show ?thesis by simp
  qed
  let ?d3 = "correlacao_transacoes (correlacao_satisfacao (correlacao_saldo df0))"
  obtain d4 g4 where c4: "correlacao_idade R (?d3, g0) = (d4, g4)"
    by (cases "correlacao_idade R (?d3, g0)")
  from c c4 have df5: "df5 = correlacao_produtos d4" by (simp add: correlacoes_eq)
  have b3: "bem_formado (nat n) ?d3"
    using b0 by (intro correlacao_transacoes_bem_formado
        correlacao_satisfacao_bem_formado correlacao_saldo_bem_formado)
  have c3: "canal_preferido ?d3 = canal_preferido df0"
    by (simp add: correlacao_transacoes_eq correlacao_satisfacao_eq correlacao_saldo_eq)
  from b3 have l3: "length (canal_preferido ?d3) = length (idade ?d3)" "k < length (idade ?d3)"
    using assms(3) by (simp_all add: bem_formado_def)
  from can [OF assms(3)] obtain i where
    i: "i < 5" "canal_preferido df0 ! k = lista_canais_idade ! i" by blast
  have mem: "(i, lista_canais_idade ! i) \<in> set (enumerate 0 lista_canais_idade)"
    using i(1) len5 by (simp add: in_set_enumerate_eq)
  have dist: "distinct (map snd (enumerate 0 lista_canais_idade))"
    by (simp add: canais_distintos)
  have ck: "canal_preferido ?d3 ! k = lista_canais_idade ! i"
    using i(2) c3 by simp
  from foldl_ajustar_idade_lote [OF dist l3 c4 [unfolded correlacao_idade_def] mem ck]
  obtain sd zs s2 where
    z: "amostrar (np_normal R (30 + real i * 8) 5)
          (soma (mascara (canal_preferido ?d3) (lista_canais_idade ! i))) sd = (zs, s2)"
    and v: "idade d4 ! k =
      astype_int (np_clip
        (zs ! soma (take k (mascara (canal_preferido ?d3) (lista_canais_idade ! i)))) 18 85)"
    by blast
  have ct: "canal_preferido t = canal_preferido df0"
    using q(4) by (simp add: t sel_extend)
  have it: "idade t = idade d4"
    by (simp add: t sel_extend df5 correlacao_produtos_eq)
  from z v have "amostrar (np_normal R ([30, 38, 46, 54, 62] ! i) 5)
              (soma (mascara (canal_preferido t) (lista_canais_idade ! i))) sd = (zs, s2) \<and>
            idade t ! k =
              astype_int
                (np_clip
                   (zs ! soma (take k (mascara (canal_preferido t) (lista_canais_idade ! i))))
                   18 85)"
    by (simp add: ct it c3 media_canal [OF i(1)])
  moreover have "canal_preferido t ! k = lista_canais_idade ! i"
    using i(2) ct by simp
  ultimately have "\<exists>i s lote s2. i < 5 \<and> canal_preferido t ! k = lista_canais_idade ! i \<and>
            amostrar (np_normal R ([30, 38, 46, 54, 62] ! i) 5)
              (soma (mascara (canal_preferido t) (lista_canais_idade ! i))) s = (lote, s2) \<and>
            idade t ! k =
              astype_int
                (np_clip
                   (lote ! soma (take k (mascara (canal_preferido t) (lista_canais_idade ! i))))
                   18 85)"
    using i(1) by blast
  with part2 s show ?thesis by simp
qed

theorem gerar_dados_idade_witness:
  "gerar_dados gerador_teste 2 (7::nat) () = Inr (tabela_teste_2, 66) \<and>
   gerador_ok gerador_teste \<and> (1::nat) < nat 2 \<and>
   (\<exists>i s lote s2. i < 5 \<and> canal_preferido tabela_teste_2 ! 1 = lista_canais_idade ! i \<and>
      amostrar (np_normal gerador_teste ([30, 38, 46, 54, 62] ! i) 5)
        (soma (mascara (canal_preferido tabela_teste_2) (lista_canais_idade ! i))) s
        = (lote, s2) \<and>
      idade tabela_teste_2 ! 1 =
        astype_int
          (np_clip
             (lote ! soma (take 1 (mascara (canal_preferido tabela_teste_2)
                                      (lista_canais_idade ! i))))
             18 85)) \<and>
   sortear_colunas gerador_teste 2 (np_seed gerador_teste 42) = Inr (inicial_teste_2, 62) \<and>
   length [20, 99::int] = nat 2 \<and>
   (case correlacoes gerador_teste (inicial_teste_2\<lparr>idade := [20, 99]\<rparr>, 62) of
      (df, g) \<Rightarrow> financeiro gerador_teste 2 df g) = Inr (tabela_teste_2, 66)"
proof -
  have g: "gerar_dados gerador_teste 2 (7::nat) () = Inr (tabela_teste_2, 66)"
    by (rule gerar_dados_teste_2)
  have k: "(1::nat) < nat 2" by simp
  have l: "length [20, 99::int] = nat 2" by simp
  from gerar_dados_idade [OF g gerador_teste_ok k] sorteio_teste_dois l
  have "\<exists>i s lote s2. i < 5 \<and> canal_preferido tabela_teste_2 ! 1 = lista_canais_idade ! i \<and>
      amostrar (np_normal gerador_teste ([30, 38, 46, 54, 62] ! i) 5)
        (soma (mascara (canal_preferido tabela_teste_2) (lista_canais_idade ! i))) s
        = (lote, s2) \<and>
      idade tabela_teste_2 ! 1 =
        astype_int
          (np_clip
             (lote ! soma (take 1 (mascara (canal_preferido tabela_teste_2)
                                      (lista_canais_idade ! i))))
             18 85)"
    and "(case correlacoes gerador_teste (inicial_teste_2\<lparr>idade := [20, 99]\<rparr>, 62) of
      (df, g) \<Rightarrow> financeiro gerador_teste 2 df g) = Inr (tabela_teste_2, 66)"
    by blast+
  with g gerador_teste_ok k sorteio_teste_dois l show ?thesis by blast
qed

text \<open>
  C9 (zero contacts). In a row with contact frequency 0 the service cost is exactly 0 and
  the profitability equals the revenue.
\<close>

theorem gerar_dados_sem_contato:
  assumes "gerar_dados R n estado agora = Inr (t, g')" and "k < nat n"
    and "freq_contatos_mensais t ! k = 0"
  shows "custo_atendimento_mensal t ! k = 0 \<and>
         rentabilidade_mensal t ! k = receita_mensal t ! k"
proof -
  from assms(1) obtain df0 g0 df5 g5 receita g6 custo where
    s: "sortear_colunas R n (np_seed R 42) = Inr (df0, g0)"
    and c: "correlacoes R (df0, g0) = (df5, g5)"
    and r: "calcular_receita R n df5 g5 = Inr (receita, g6)"
    and u: "calcular_custo n df5 g6 = Inr (custo, g')"
    and t: "t = dataframe.extend df5
           (tabela.fields receita custo
              (map (np_round 2) (map2 (\<lambda>r c. r - c) receita custo)))"
    by (rule gerar_dados_Inr)
  note q = correlacoes_quadro [OF c sortear_colunas_bem_formado(1) [OF s]]
  from q(1) have l: "length (canal_preferido df5) = nat n"
    "length (freq_contatos_mensais df5) = nat n"
    by (simp_all add: bem_formado_def)
  from gerar_dados_linhas(1) [OF assms(1)] have
    lt: "length receita = nat n" "length custo = nat n"
    by (simp_all add: tabela_com_linhas_def t sel_extend)
  from assms(3) have f0: "freq_contatos_mensais df5 ! k = 0" by (simp add: t sel_extend)
  have c0: "custo ! k = 0"
    using assms(2) l f0
    by (simp add: calcular_custo_Inr(3) [OF u] custo_canal_length np_round_zero)
  from r obtain xs where "receita = map (np_round 2) xs"
    by (rule calcular_receita_Inr)
  with lt(1) assms(2) have "np_round 2 (receita ! k) = receita ! k"
    by (simp add: np_round_idem)
  with c0 lt assms(2) show ?thesis by (simp add: t sel_extend)
qed

theorem gerar_dados_sem_contato_witness:
  "gerar_dados gerador_teste 2 (7::nat) () = Inr (tabela_teste_2, 66) \<and>
   (0::nat) < nat 2 \<and> freq_contatos_mensais tabela_teste_2 ! 0 = 0 \<and>
   custo_atendimento_mensal tabela_teste_2 ! 0 = 0 \<and>
   rentabilidade_mensal tabela_teste_2 ! 0 = receita_mensal tabela_teste_2 ! 0"
proof -
  have g: "gerar_dados gerador_teste 2 (7::nat) () = Inr (tabela_teste_2, 66)"
    by (rule gerar_dados_teste_2)
  have k: "(0::nat) < nat 2" by simp
  have f: "freq_contatos_mensais tabela_teste_2 ! 0 = 0" by (simp add: tabela_teste_2_def)
  from gerar_dados_sem_contato [OF g k f] g k f show ?thesis by blast
qed

text \<open>
  C10 as stated fails in the arithmetic of the code. Line 134 multiplies a balance by
  \<open>i + 1\<close> and then by 1.5, two float64 products. For Alta Renda (\<open>i = 2\<close>) the
  result is not always the float64 product by 4.5, nor the exact product: in the run
  below the rounded draw 5000.03 becomes 22500.135000000002, where the product by 4.5
  is 22500.135.
\<close>

theorem gerar_dados_saldo_counterexample:
  "gerar_dados gerador_teste 2 (7::nat) () = Inr (tabela_teste_2, 66) \<and>
   segmento tabela_teste_2 ! 0 = lista_segmentos ! 2 \<and>
   saldo_conta tabela_teste_2 ! 0 \<noteq>
     fmul (np_round64 2
             (min (max (fst (amostrar (np_exponential gerador_teste 10000) (nat 2)
                               (snd (amostrar (np_normal gerador_teste 42 15) (nat 2)
                                       (np_seed gerador_teste 42)))) ! 0) 0) 500000))
          ([1.5, 3.0, 4.5, 6.0] ! 2) \<and>
   saldo_conta tabela_teste_2 ! 0 \<noteq>
     np_round64 2
       (min (max (fst (amostrar (np_exponential gerador_teste 10000) (nat 2)
                         (snd (amostrar (np_normal gerador_teste 42 15) (nat 2)
                                 (np_seed gerador_teste 42)))) ! 0) 0) 500000) *
     [1.5, 3.0, 4.5, 6.0] ! 2"
proof -
  have r: "np_round64 2 (min (max (500003 / 100) 0) 500000) = 5497591124228833 / 1099511627776"
    by (simp add: np_round64_def float64_def ulp_def expoente_def bits_eval rint_def)
  have a: "fmul (5497591124228833 / 1099511627776) (45 / 10) \<noteq>
      3092395007378719 / 137438953472"
    by (simp add: fmul_def float64_def ulp_def expoente_def bits_eval rint_def)
  have s: "saldo_conta tabela_teste_2 ! 0 = 3092395007378719 / 137438953472"
    by (simp add: tabela_teste_2_def)
  have b: "(5497591124228833 / 1099511627776) * (45 / 10) \<noteq>
      (3092395007378719 / 137438953472 :: real)"
    by simp
  have e: "[1.5, 3.0, 4.5, 6.0] ! 2 = (45 / 10 :: real)"
    by simp
  have n: "[500003 / 100, 750003 / 100] ! 0 = (500003 / 100 :: real)"
    by simp
  show ?thesis
    unfolding sorteio_saldo_teste_2 n r e s
    by (intro conjI, rule gerar_dados_teste_2, rule segmentos_teste_2(1),
        rule a [symmetric], rule b [symmetric])
qed

text \<open>
  C10 (amended). The second draw after seeding is a batch of \<open>n\<close> exponential
  variates (scale 10000). In row \<open>k\<close> the balance is the \<open>k\<close>-th variate of it,
  clipped to 0..500000 and rounded to 2 decimals in float64, then multiplied by
  \<open>i + 1\<close> and by 1.5 as two successive float64 products, \<open>i\<close> being the rank of the
  segment of the row (Varejo 0, Premium 1, Alta Renda 2, Private 3). For Varejo, Premium
  and Private this is the single float64 product by 1.5, 3.0 and 6.0. The product is not
  rounded again: there is a generator that meets the contract of the library and a
  run whose balance changes when rounded to 2 decimals.
\<close>

theorem gerar_dados_saldo:
  assumes "gerar_dados R n estado agora = Inr (t, g')" and "gerador_ok R" and "k < nat n"
  shows "(\<exists>i<4. segmento t ! k = lista_segmentos ! i \<and>
           (let x = fst (amostrar (np_exponential R 10000) (nat n)
                           (snd (amostrar (np_normal R 42 15) (nat n) (np_seed R 42)))) ! k;
                r = np_round64 2 (min (max x 0) 500000)
            in saldo_conta t ! k = fmul (fmul r (real i + 1)) 1.5 \<and>
               (i \<noteq> 2 \<longrightarrow> saldo_conta t ! k = fmul r ([1.5, 3.0, 4.5, 6.0] ! i)))) \<and>
         (\<exists>(R'::nat gerador) t' s'. gerador_ok R' \<and>
            gerar_dados R' 1 (0::nat) () = Inr (t', s') \<and>
            np_round64 2 (saldo_conta t' ! 0) \<noteq> saldo_conta t' ! 0)"
proof -
  from assms(1) obtain df0 g0 df5 g5 receita custo where
    s: "sortear_colunas R n (np_seed R 42) = Inr (df0, g0)"
    and c: "correlacoes R (df0, g0) = (df5, g5)"
    and t: "t = dataframe.extend df5
           (tabela.fields receita custo
              (map (np_round 2) (map2 (\<lambda>r c. r - c) receita custo)))"
    by (rule gerar_dados_Inr)
  note b0 = sortear_colunas_bem_formado(1) [OF s]
  note q = correlacoes_quadro [OF c b0]
  from b0 have l: "length (segmento df0) = nat n" "length (saldo_conta df0) = nat n"
    by (simp_all add: bem_formado_def)
  from segmento_na_lista [OF s assms(2,3)] obtain i where
    i: "i < 4" "segmento df0 ! k = lista_segmentos ! i" by auto
  define x where "x = fst (amostrar (np_exponential R 10000) (nat n)
                           (snd (amostrar (np_normal R 42 15) (nat n) (np_seed R 42)))) ! k"
  define r where "r = np_round64 2 (min (max x 0) 500000)"
  have sd: "saldo_conta df0 ! k = r"
    using saldo_inicial_lote [OF s assms(3)] by (simp add: r_def x_def np_clip_def)
  have rep: "float64 r = r" unfolding r_def by (rule np_round64_rep)
  have h: "saldo_conta t ! k = fmul (fmul r (real i + 1)) 1.5"
    using escalar_saldo_nth [of k "saldo_conta df0" "segmento df0" i] l assms(3) i sd
    by (simp add: q(7) correlacao_saldo_eq t sel_extend)
  have f: "saldo_conta t ! k = fmul r ([1.5, 3.0, 4.5, 6.0] ! i)" if "i \<noteq> 2"
  proof -
    from menor_4 [OF i(1)] that consider "i = 0" | "i = Suc 0" | "i = 3" by auto
    then show ?thesis
    proof cases
      case 1
      with h fmul_um [OF rep, of "15 / 10"] show ?thesis by simp
    next
      case 2
      with h fmul_dois [OF rep] show ?thesis by simp
    next
      case 3
      with h fmul_quatro [OF rep] show ?thesis by simp
    qed
  qed
  have "\<exists>i<4. segmento t ! k = lista_segmentos ! i \<and>
           (let x = fst (amostrar (np_exponential R 10000) (nat n)
                           (snd (amostrar (np_normal R 42 15) (nat n) (np_seed R 42)))) ! k;
                r = np_round64 2 (min (max x 0) 500000)
            in saldo_conta t ! k = fmul (fmul r (real i + 1)) 1.5 \<and>
               (i \<noteq> 2 \<longrightarrow> saldo_conta t ! k = fmul r ([1.5, 3.0, 4.5, 6.0] ! i)))"
  proof (intro exI [of _ i] conjI)
    show "i < 4" by (rule i(1))
    show "segmento t ! k = lista_segmentos ! i" using i(2) q(3) by (simp add: t sel_extend)
    show "let x = fst (amostrar (np_exponential R 10000) (nat n)
                           (snd (amostrar (np_normal R 42 15) (nat n) (np_seed R 42)))) ! k;
                r = np_round64 2 (min (max x 0) 500000)
            in saldo_conta t ! k = fmul (fmul r (real i + 1)) 1.5 \<and>
               (i \<noteq> 2 \<longrightarrow> saldo_conta t ! k = fmul r ([1.5, 3.0, 4.5, 6.0] ! i))"
      unfolding Let_def x_def [symmetric] r_def [symmetric] using h f by blast
  qed
  moreover have "\<exists>(R'::nat gerador) t' s'. gerador_ok R' \<and>
            gerar_dados R' 1 (0::nat) () = Inr (t', s') \<and>
            np_round64 2 (saldo_conta t' ! 0) \<noteq> saldo_conta t' ! 0"
    using gerador_teste_ok gerar_dados_teste [of 0 "()"] saldo_fora_da_grade by blast
  ultimately show ?thesis by blast
qed

theorem gerar_dados_saldo_witness:
  "gerar_dados gerador_teste 2 (7::nat) () = Inr (tabela_teste_2, 66) \<and>
   gerador_ok gerador_teste \<and> (1::nat) < nat 2 \<and>
   segmento tabela_teste_2 ! 1 = lista_segmentos ! 3 \<and> (3::nat) \<noteq> 2 \<and>
   (let x = fst (amostrar (np_exponential gerador_teste 10000) (nat 2)
                   (snd (amostrar (np_normal gerador_teste 42 15) (nat 2)
                           (np_seed gerador_teste 42)))) ! 1;
        r = np_round64 2 (min (max x 0) 500000)
    in saldo_conta tabela_teste_2 ! 1 = fmul (fmul r (real 3 + 1)) 1.5 \<and>
       saldo_conta tabela_teste_2 ! 1 = fmul r ([1.5, 3.0, 4.5, 6.0] ! 3))"
proof -
  have g: "gerar_dados gerador_teste 2 (7::nat) () = Inr (tabela_teste_2, 66)"
    by (rule gerar_dados_teste_2)
  have k: "(1::nat) < nat 2" by simp
  from gerar_dados_saldo [OF g gerador_teste_ok k] obtain i where
    i: "i < 4" "segmento tabela_teste_2 ! 1 = lista_segmentos ! i"
    and v: "let x = fst (amostrar (np_exponential gerador_teste 10000) (nat 2)
                   (snd (amostrar (np_normal gerador_teste 42 15) (nat 2)
                           (np_seed gerador_teste 42)))) ! 1;
        r = np_round64 2 (min (max x 0) 500000)
    in saldo_conta tabela_teste_2 ! 1 = fmul (fmul r (real i + 1)) 1.5 \<and>
       (i \<noteq> 2 \<longrightarrow> saldo_conta tabela_teste_2 ! 1 = fmul r ([1.5, 3.0, 4.5, 6.0] ! i))"
    by blast
  from i segmentos_teste_2(2) have i3: "i = 3"
    using segmentos_distintos [of i 3] by simp
  from v show ?thesis
    unfolding i3 Let_def using g gerador_teste_ok k segmentos_teste_2(2) by simp
qed

end
